theory Spec2Isabelle
  imports Complex_Main
begin

section \<open>Threshold evaluation and alert dispatch of the plant dashboard backend\<close>

text \<open>
  The development embeds the alert path of the backend: the Twilio wrapper
  (\<^verbatim>\<open>TwilioService\<close>: \<^verbatim>\<open>sendSMS\<close>, \<^verbatim>\<open>sendWhatsApp\<close>, \<^verbatim>\<open>sendAlert\<close>), the
  threshold checks of \<^verbatim>\<open>alertService.js\<close>, the summaries of
  \<^verbatim>\<open>routes/notifications.js\<close> and the cron callback of the server.

  Conventions of the embedding:
  \<^item> a JavaScript number is a \<open>real\<close> (the rounding of doubles is not modelled); a
    field that may be \<^verbatim>\<open>undefined\<close> is an \<open>option\<close> (\<^verbatim>\<open>null\<close> is not modelled);
    where the source divides, the quotient is a \<open>jsnum\<close> so that a zero divisor gives
    the infinities and NaN of JavaScript and not HOL's \<open>x / 0 = 0\<close>;
  \<^item> a document is what Mongoose hands over for its schema: nested objects are
    present and fields have their schema's type, except that the entry of an
    emission parameter is looked up by name and may be missing;
  \<^item> the arguments of a send may be values that are not strings (\<open>js_arg\<close>), as the
    routes pass on what the request body holds;
  \<^item> an \<^verbatim>\<open>async\<close> function is a function on the \<open>world\<close> that returns either the
    exception it throws (\<open>Inl\<close>) or its value (\<open>Inr\<close>), with the world it leaves;
  \<^item> the text of a message is kept as the values its template interpolates
    (\<open>alert_message\<close>, \<open>alert_text\<close>, \<open>issue\<close>); timestamps (\<^verbatim>\<open>new Date()\<close>) and
    characters outside ASCII are left out;
  \<^item> of the console output only the lines that stand for a simulated delivery are
    recorded.
\<close>

subsection \<open>JavaScript values\<close>

datatype exn = Error string | TypeError string

fun message_of :: "exn \<Rightarrow> string" where
  "message_of (Error m) = m"
| "message_of (TypeError m) = m"

text \<open>Truthiness of an optional string: \<^verbatim>\<open>undefined\<close> and the empty string are falsy.\<close>

fun truthy :: "string option \<Rightarrow> bool" where
  "truthy None = False"
| "truthy (Some s) = (s \<noteq> [])"

text \<open>A template literal prints \<^verbatim>\<open>undefined\<close> for a missing string.\<close>

fun js_str :: "string option \<Rightarrow> string" where
  "js_str None = ''undefined''"
| "js_str (Some s) = s"

text \<open>
  An argument as a caller hands it over: a string (for a message, its text), or a
  value whose conversion to a string throws \<^verbatim>\<open>TypeError\<close>, such as the JSON object
  \<^verbatim>\<open>{"toString": 1}\<close> that a request body may hold.
\<close>

datatype 'a js_arg = Str 'a | Unprintable

datatype jsnum = Finite real | PosInf | NegInf | NaN

fun num_of :: "real option \<Rightarrow> jsnum" where
  "num_of None = NaN"
| "num_of (Some x) = Finite x"

text \<open>\<^verbatim>\<open>a / b\<close> on numbers, \<^verbatim>\<open>undefined\<close> read as NaN.\<close>

fun js_div :: "jsnum \<Rightarrow> jsnum \<Rightarrow> jsnum" where
  "js_div (Finite a) (Finite b) =
     (if b = 0 then (if a > 0 then PosInf else if a < 0 then NegInf else NaN)
      else Finite (a / b))"
| "js_div NaN _ = NaN"
| "js_div _ NaN = NaN"
| "js_div (Finite a) _ = Finite 0"
| "js_div PosInf (Finite b) = (if b < 0 then NegInf else PosInf)"
| "js_div NegInf (Finite b) = (if b < 0 then PosInf else NegInf)"
| "js_div _ _ = NaN"

text \<open>\<^verbatim>\<open>x * c\<close> for a positive finite constant \<open>c\<close>.\<close>

fun js_scale :: "jsnum \<Rightarrow> real \<Rightarrow> jsnum" where
  "js_scale (Finite a) c = Finite (a * c)"
| "js_scale x c = x"

fun js_gt :: "jsnum \<Rightarrow> jsnum \<Rightarrow> bool" where
  "js_gt NaN _ = False"
| "js_gt _ NaN = False"
| "js_gt (Finite a) (Finite b) = (a > b)"
| "js_gt PosInf PosInf = False"
| "js_gt PosInf _ = True"
| "js_gt _ PosInf = False"
| "js_gt NegInf _ = False"
| "js_gt _ NegInf = True"

text \<open>\<^verbatim>\<open>Math.max(a, b)\<close>: NaN if either argument is NaN.\<close>

fun js_max :: "jsnum \<Rightarrow> jsnum \<Rightarrow> jsnum" where
  "js_max NaN _ = NaN"
| "js_max _ NaN = NaN"
| "js_max a b = (if js_gt b a then b else a)"

text \<open>\<^verbatim>\<open>String.prototype.toUpperCase\<close> on ASCII letters.\<close>

definition upper_char :: "char \<Rightarrow> char" where
  "upper_char c =
     (case map_of (zip ''abcdefghijklmnopqrstuvwxyz'' ''ABCDEFGHIJKLMNOPQRSTUVWXYZ'') c of
        None \<Rightarrow> c
      | Some C \<Rightarrow> C)"

definition toUpperCase :: "string \<Rightarrow> string" where
  "toUpperCase s = map upper_char s"

subsection \<open>Messages and the delivery trace\<close>

datatype issue =
  Exceeds string real real string
| Below string real real string

fun issue_label :: "issue \<Rightarrow> string" where
  "issue_label (Exceeds l v m u) = l"
| "issue_label (Below l v m u) = l"

text \<open>
  The result of \<^verbatim>\<open>generateAlertMessage(alertType, data)\<close>, one constructor per case of
  its \<^verbatim>\<open>switch\<close>, holding the fields of \<^verbatim>\<open>data\<close> that the template prints; \<open>Plain\<close> is
  a message text given by a route's caller.
\<close>

datatype alert_message =
  EmissionMsg string real string real string
| MaintenanceMsg string string "issue list"
| LoadMsg "real option" "real option" string
| AshMsg string jsnum string
| Plain string

record twilio_request =
  body :: "alert_message js_arg"
  from_addr :: "string option"
  to_addr :: "string js_arg"

record message_instance =
  sid :: string
  status :: string

datatype delivery = Mocked | Requested twilio_request

text \<open>
  One event per delivery: the channel, the \<^verbatim>\<open>to\<close> and \<^verbatim>\<open>message\<close> arguments, and
  what was done: the console line of a mocked delivery, or the request handed to
  \<^verbatim>\<open>client.messages.create\<close>. \<open>Send_raw\<close> is such a request made for an argument
  that is not a string. \<open>event_target\<close> reads the channel and the destination string
  off an event (no string for a destination that is not one).
\<close>

datatype event =
  Send string string alert_message delivery
| Send_raw string "string js_arg" "alert_message js_arg" twilio_request

fun is_request :: "event \<Rightarrow> bool" where
  "is_request (Send ch to m (Requested r)) = True"
| "is_request (Send ch to m Mocked) = False"
| "is_request (Send_raw ch to m r) = True"

fun event_target :: "event \<Rightarrow> string \<times> string" where
  "event_target (Send ch to m d) = (ch, to)"
| "event_target (Send_raw ch to m r) = (ch, (case to of Str t \<Rightarrow> t | Unprintable \<Rightarrow> []))"

subsection \<open>Documents of the store\<close>

record notification_prefs =
  sms :: bool
  whatsapp :: bool

record user =
  user_id :: string
  user_name :: string
  phone :: "string option"
  notifications :: notification_prefs
  isActive :: bool
  department :: "string option"

record reading =
  r_value :: "real option"
  r_unit :: string
  r_threshold :: "real option"

datatype alert_text =
  ExceededText string real real string
| LoadAtText jsnum
| StorageAtText string jsnum

record emission_alert =
  a_parameter :: string
  a_message :: alert_text
  a_severity :: string

text \<open>
  \<open>e_params\<close> is the lookup \<^verbatim>\<open>emission[param]\<close>: \<open>None\<close> when the document has no
  such entry.
\<close>

record emission =
  e_params :: "string \<Rightarrow> reading option"
  e_location :: "string option"
  e_alerts :: "emission_alert list option"

record bounds =
  b_min :: "real option"
  b_max :: "real option"

record m_parameters =
  temperature :: "real option"
  vibration :: "real option"
  pressure :: "real option"
  efficiency :: "real option"

record m_thresholds =
  t_temperature :: bounds
  t_vibration :: bounds
  t_pressure :: bounds
  t_efficiency :: bounds

record maintenance =
  equipment_name :: string
  parameters :: m_parameters
  thresholds :: m_thresholds
  anomalies :: "string list option"

record load_alert =
  la_type :: string
  la_message :: alert_text
  la_severity :: string

record load =
  demand_current :: "real option"
  demand_capacity :: "real option"
  l_alerts :: "load_alert list option"

record ash_alert =
  aa_type :: string
  aa_message :: alert_text
  aa_priority :: string

record ash =
  fly_current :: "real option"
  fly_capacity :: "real option"
  bottom_current :: "real option"
  bottom_capacity :: "real option"
  ash_alerts :: "ash_alert list option"

subsection \<open>The world and asynchronous functions\<close>

text \<open>
  The store keeps the latest document of each collection and the users. The
  \<open>n\<close>-th operation on the store throws when \<open>db_fault n\<close> holds, so any
  operation may fail. \<open>trace\<close> lists the deliveries in the order they happen.
\<close>

record world =
  db_fault :: "nat \<Rightarrow> bool"
  db_ops :: nat
  store_emission :: "emission option"
  store_maintenance :: "maintenance option"
  store_load :: "load option"
  store_ash :: "ash option"
  store_users :: "user list"
  trace :: "event list"

type_synonym 'a io = "world \<Rightarrow> (exn + 'a) \<times> world"

definition io_return :: "'a \<Rightarrow> 'a io" where
  "io_return x = (\<lambda>w. (Inr x, w))"

definition io_throw :: "exn \<Rightarrow> 'a io" where
  "io_throw e = (\<lambda>w. (Inl e, w))"

definition io_bind :: "'a io \<Rightarrow> ('a \<Rightarrow> 'b io) \<Rightarrow> 'b io" where
  "io_bind m f = (\<lambda>w. case m w of (Inl e, w') \<Rightarrow> (Inl e, w') | (Inr x, w') \<Rightarrow> f x w')"

definition try_catch :: "'a io \<Rightarrow> (exn \<Rightarrow> 'a io) \<Rightarrow> 'a io" where
  "try_catch m h = (\<lambda>w. case m w of (Inl e, w') \<Rightarrow> h e w' | (Inr x, w') \<Rightarrow> (Inr x, w'))"

text \<open>The conversion to a string that a template literal makes of \<^verbatim>\<open>${x}\<close>.\<close>

definition to_string :: "'a js_arg \<Rightarrow> 'a io" where
  "to_string a =
     (case a of
        Str s \<Rightarrow> io_return s
      | Unprintable \<Rightarrow> io_throw (TypeError ''Cannot convert object to primitive value''))"

definition db_access :: "unit io" where
  "db_access = (\<lambda>w.
     (if db_fault w (db_ops w) then Inl (Error ''store operation failed'') else Inr (),
      w\<lparr>db_ops := Suc (db_ops w)\<rparr>))"

subsection \<open>The Twilio service\<close>

text \<open>
  The client made by \<^verbatim>\<open>twilio(sid, token)\<close> is the gateway: what
  \<^verbatim>\<open>messages.create\<close> answers to a request, given how many requests came before.
\<close>

type_synonym gateway = "nat \<Rightarrow> twilio_request \<Rightarrow> exn + message_instance"

record env =
  TWILIO_SID :: "string option"
  TWILIO_AUTH_TOKEN :: "string option"
  TWILIO_PHONE_NUMBER :: "string option"

record twilio_service =
  accountSid :: "string option"
  authToken :: "string option"
  phoneNumber :: "string option"
  client :: "gateway option"

definition TwilioService :: "gateway \<Rightarrow> env \<Rightarrow> twilio_service" where
  "TwilioService gw e =
     \<lparr>accountSid = TWILIO_SID e, authToken = TWILIO_AUTH_TOKEN e,
      phoneNumber = TWILIO_PHONE_NUMBER e,
      client = (if truthy (TWILIO_SID e) \<and> truthy (TWILIO_AUTH_TOKEN e) then Some gw else None)\<rparr>"

record send_result =
  success :: bool
  mock :: bool
  messageId :: "string option"
  msg_status :: "string option"
  error :: "string option"

definition mock_log :: "string \<Rightarrow> string \<Rightarrow> alert_message \<Rightarrow> unit io" where
  "mock_log ch to m = (\<lambda>w. (Inr (), w\<lparr>trace := trace w @ [Send ch to m Mocked]\<rparr>))"

fun call_event ::
  "string \<Rightarrow> string js_arg \<Rightarrow> alert_message js_arg \<Rightarrow> twilio_request \<Rightarrow> event" where
  "call_event ch (Str to) (Str m) req = Send ch to m (Requested req)"
| "call_event ch to m req = Send_raw ch to m req"

definition messages_create ::
  "gateway \<Rightarrow> string \<Rightarrow> string js_arg \<Rightarrow> alert_message js_arg \<Rightarrow> twilio_request
     \<Rightarrow> message_instance io" where
  "messages_create gw ch to m req = (\<lambda>w.
     (gw (length (filter is_request (trace w))) req,
      w\<lparr>trace := trace w @ [call_event ch to m req]\<rparr>))"

text \<open>
  Without a client the line \<^verbatim>\<open>Mock SMS to ${to}: ${message}\<close> is built and logged
  before anything else and outside any \<^verbatim>\<open>try\<close>: the conversion of \<^verbatim>\<open>to\<close>, then of
  \<^verbatim>\<open>message\<close>, may throw to the caller. With a client the request is built and
  sent inside the \<^verbatim>\<open>try\<close>; \<^verbatim>\<open>sendSMS\<close> passes its arguments on as they are,
  \<^verbatim>\<open>sendWhatsApp\<close> converts \<^verbatim>\<open>to\<close> for the address \<^verbatim>\<open>whatsapp:${to}\<close>.
\<close>

definition sendSMS ::
  "twilio_service \<Rightarrow> string js_arg \<Rightarrow> alert_message js_arg \<Rightarrow> send_result io" where
  "sendSMS tw to message =
     (case client tw of
        None \<Rightarrow>
          io_bind (to_string to) (\<lambda>t.
          io_bind (to_string message) (\<lambda>m.
          io_bind (mock_log ''sms'' t m) (\<lambda>_.
          io_return \<lparr>success = True, mock = True, messageId = None, msg_status = None,
                     error = None\<rparr>)))
      | Some gw \<Rightarrow>
          try_catch
            (io_bind
               (messages_create gw ''sms'' to message
                  \<lparr>body = message, from_addr = phoneNumber tw, to_addr = to\<rparr>) (\<lambda>result.
             io_return \<lparr>success = True, mock = False, messageId = Some (sid result),
                        msg_status = Some (status result), error = None\<rparr>))
            (\<lambda>err.
             io_return \<lparr>success = False, mock = False, messageId = None, msg_status = None,
                        error = Some (message_of err)\<rparr>))"

definition sendWhatsApp ::
  "twilio_service \<Rightarrow> string js_arg \<Rightarrow> alert_message js_arg \<Rightarrow> send_result io" where
  "sendWhatsApp tw to message =
     (case client tw of
        None \<Rightarrow>
          io_bind (to_string to) (\<lambda>t.
          io_bind (to_string message) (\<lambda>m.
          io_bind (mock_log ''whatsapp'' t m) (\<lambda>_.
          io_return \<lparr>success = True, mock = True, messageId = None, msg_status = None,
                     error = None\<rparr>)))
      | Some gw \<Rightarrow>
          try_catch
            (io_bind (to_string to) (\<lambda>t.
             io_bind
               (messages_create gw ''whatsapp'' to message
                  \<lparr>body = message,
                   from_addr = Some (''whatsapp:'' @ js_str (phoneNumber tw)),
                   to_addr = Str (''whatsapp:'' @ t)\<rparr>) (\<lambda>result.
             io_return \<lparr>success = True, mock = False, messageId = Some (sid result),
                        msg_status = Some (status result), error = None\<rparr>)))
            (\<lambda>err.
             io_return \<lparr>success = False, mock = False, messageId = None, msg_status = None,
                        error = Some (message_of err)\<rparr>))"

record alert_result = send_result +
  res_userId :: string
  res_name :: string
  res_phone :: string
  res_type :: string

text \<open>
  \<^verbatim>\<open>sendAlert\<close>, for a message that is a string; the phone number of a user is a
  string of the store. \<open>skipped\<close> is the test at the head of its loop: the user is
  passed over.
\<close>

definition skipped :: "user \<Rightarrow> string \<Rightarrow> bool" where
  "skipped u ty \<longleftrightarrow>
     \<not> truthy (phone u) \<or> (\<not> sms (notifications u) \<and> ty = ''sms'')
       \<or> (\<not> whatsapp (notifications u) \<and> ty = ''whatsapp'')"

definition result_entry :: "user \<Rightarrow> string \<Rightarrow> send_result \<Rightarrow> alert_result" where
  "result_entry u ty r =
     \<lparr>success = success r, mock = mock r, messageId = messageId r, msg_status = msg_status r,
      error = error r, res_userId = user_id u, res_name = user_name u,
      res_phone = js_str (phone u), res_type = ty\<rparr>"

fun sendAlert_loop ::
  "twilio_service \<Rightarrow> user list \<Rightarrow> alert_message \<Rightarrow> string \<Rightarrow> alert_result list
     \<Rightarrow> alert_result list io" where
  "sendAlert_loop tw [] m ty results = io_return results"
| "sendAlert_loop tw (u # us) m ty results =
     (if skipped u ty then sendAlert_loop tw us m ty results
      else
        io_bind
          (if ty = ''whatsapp'' then sendWhatsApp tw (Str (js_str (phone u))) (Str m)
           else sendSMS tw (Str (js_str (phone u))) (Str m)) (\<lambda>result.
        sendAlert_loop tw us m ty (results @ [result_entry u ty result])))"

definition sendAlert ::
  "twilio_service \<Rightarrow> user list \<Rightarrow> alert_message \<Rightarrow> string \<Rightarrow> alert_result list io" where
  "sendAlert tw users m ty = sendAlert_loop tw users m ty []"

subsection \<open>Store operations\<close>

definition findLatest :: "(world \<Rightarrow> 'a option) \<Rightarrow> 'a option io" where
  "findLatest coll = io_bind db_access (\<lambda>_. (\<lambda>w. (Inr (coll w), w)))"

text \<open>
  \<^verbatim>\<open>User.find({isActive: true, $or: [{'notifications.sms': true},
  {'notifications.whatsapp': true}]})\<close>.
\<close>

definition findAlertUsers :: "user list io" where
  "findAlertUsers =
     io_bind db_access (\<lambda>_. (\<lambda>w.
       (Inr (filter (\<lambda>u. isActive u \<and> (sms (notifications u) \<or> whatsapp (notifications u)))
               (store_users w)), w)))"

definition save_emission :: "emission \<Rightarrow> unit io" where
  "save_emission e = io_bind db_access (\<lambda>_. (\<lambda>w. (Inr (), w\<lparr>store_emission := Some e\<rparr>)))"

definition save_maintenance :: "maintenance \<Rightarrow> unit io" where
  "save_maintenance m =
     io_bind db_access (\<lambda>_. (\<lambda>w. (Inr (), w\<lparr>store_maintenance := Some m\<rparr>)))"

definition save_load :: "load \<Rightarrow> unit io" where
  "save_load l = io_bind db_access (\<lambda>_. (\<lambda>w. (Inr (), w\<lparr>store_load := Some l\<rparr>)))"

definition save_ash :: "ash \<Rightarrow> unit io" where
  "save_ash a = io_bind db_access (\<lambda>_. (\<lambda>w. (Inr (), w\<lparr>store_ash := Some a\<rparr>)))"

subsection \<open>The emission check\<close>

definition emission_parameters :: "string list" where
  "emission_parameters = [''sox'', ''nox'', ''co2'', ''pm'', ''co'']"

text \<open>The message of a breach (\<^verbatim>\<open>generateAlertMessage('emission', ...)\<close>).\<close>

definition emission_message :: "emission \<Rightarrow> string \<Rightarrow> reading \<Rightarrow> real \<Rightarrow> real \<Rightarrow> alert_message" where
  "emission_message e param d v t =
     EmissionMsg (toUpperCase param) v (r_unit d) t
       (if truthy (e_location e) then js_str (e_location e) else ''Main Stack'')"

text \<open>
  The two sends of a breach: to the users opted into SMS, then to those opted into
  WhatsApp, each only if there is such a user.
\<close>

definition emission_dispatch :: "twilio_service \<Rightarrow> user list \<Rightarrow> alert_message \<Rightarrow> unit io" where
  "emission_dispatch tw users m =
     io_bind
       (let smsUsers = filter (\<lambda>u. sms (notifications u)) users in
        if length smsUsers > 0
        then io_bind (sendAlert tw smsUsers m ''sms'') (\<lambda>_. io_return ())
        else io_return ()) (\<lambda>_.
     (let whatsappUsers = filter (\<lambda>u. whatsapp (notifications u)) users in
      if length whatsappUsers > 0
      then io_bind (sendAlert tw whatsappUsers m ''whatsapp'') (\<lambda>_. io_return ())
      else io_return ()))"

text \<open>The entry pushed on \<^verbatim>\<open>emission.alerts\<close> for a breach of \<open>param\<close>.\<close>

definition emission_alert_of :: "string \<Rightarrow> reading \<Rightarrow> real \<Rightarrow> real \<Rightarrow> emission_alert" where
  "emission_alert_of param d v t =
     \<lparr>a_parameter = param,
      a_message = ExceededText (toUpperCase param) v t (r_unit d),
      a_severity = (if v > t * 1.2 then ''High'' else ''Medium'')\<rparr>"

text \<open>\<^verbatim>\<open>if (!emission.alerts) emission.alerts = []\<close>, then the push.\<close>

definition alerts_of :: "emission \<Rightarrow> emission_alert list" where
  "alerts_of e = (case e_alerts e of None \<Rightarrow> [] | Some as \<Rightarrow> as)"

definition push_emission_alert :: "emission \<Rightarrow> emission_alert \<Rightarrow> emission" where
  "push_emission_alert e a = e\<lparr>e_alerts := Some (alerts_of e @ [a])\<rparr>"

text \<open>
  The \<^verbatim>\<open>for\<close> loop of \<^verbatim>\<open>checkEmissionThresholds\<close> over the parameters still to
  visit. The document is changed in place in the source; here the loop returns it.
  Reading \<^verbatim>\<open>data.value\<close> of a missing entry throws; a comparison with
  \<^verbatim>\<open>undefined\<close> is false.
\<close>

fun checkEmission_loop ::
  "twilio_service \<Rightarrow> user list \<Rightarrow> string list \<Rightarrow> emission \<Rightarrow> emission io" where
  "checkEmission_loop tw users [] e = io_return e"
| "checkEmission_loop tw users (param # ps) e =
     (case e_params e param of
        None \<Rightarrow>
          io_throw (TypeError ''Cannot read properties of undefined (reading 'value')'')
      | Some d \<Rightarrow>
          (case r_value d of
             None \<Rightarrow> checkEmission_loop tw users ps e
           | Some v \<Rightarrow>
               (case r_threshold d of
                  None \<Rightarrow> checkEmission_loop tw users ps e
                | Some t \<Rightarrow>
                    if v > t then
                      io_bind (emission_dispatch tw users (emission_message e param d v t)) (\<lambda>_.
                      io_bind (save_emission (push_emission_alert e (emission_alert_of param d v t)))
                        (\<lambda>_.
                      checkEmission_loop tw users ps
                        (push_emission_alert e (emission_alert_of param d v t))))
                    else checkEmission_loop tw users ps e)))"

definition checkEmissionThresholds :: "twilio_service \<Rightarrow> emission \<Rightarrow> user list \<Rightarrow> emission io" where
  "checkEmissionThresholds tw e users = checkEmission_loop tw users emission_parameters e"

subsection \<open>The maintenance check\<close>

fun exceeds_issue :: "string \<Rightarrow> string \<Rightarrow> real option \<Rightarrow> real option \<Rightarrow> issue list" where
  "exceeds_issue l u (Some v) (Some m) = (if v > m then [Exceeds l v m u] else [])"
| "exceeds_issue l u _ _ = []"

fun below_issue :: "string \<Rightarrow> string \<Rightarrow> real option \<Rightarrow> real option \<Rightarrow> issue list" where
  "below_issue l u (Some v) (Some m) = (if v < m then [Below l v m u] else [])"
| "below_issue l u _ _ = []"

text \<open>The list \<^verbatim>\<open>criticalIssues\<close> after the four tests.\<close>

definition criticalIssues_of :: "maintenance \<Rightarrow> issue list" where
  "criticalIssues_of m =
     exceeds_issue ''Temperature'' ''C'' (temperature (parameters m))
       (b_max (t_temperature (thresholds m)))
     @ exceeds_issue ''Vibration'' ''mm/s'' (vibration (parameters m))
         (b_max (t_vibration (thresholds m)))
     @ exceeds_issue ''Pressure'' ''bar'' (pressure (parameters m))
         (b_max (t_pressure (thresholds m)))
     @ below_issue ''Efficiency'' ''%'' (efficiency (parameters m))
         (b_min (t_efficiency (thresholds m)))"

text \<open>
  \<^verbatim>\<open>Promise.all\<close> of the two fan-outs: in the source their sends interleave as the
  event loop schedules them; here the SMS fan-out is followed by the WhatsApp one.
  Neither throws, so the choice only fixes the order of the events in the trace,
  and no claim below depends on that order across the two channels.
\<close>

definition send_both :: "twilio_service \<Rightarrow> user list \<Rightarrow> alert_message \<Rightarrow> unit io" where
  "send_both tw users m =
     io_bind (sendAlert tw (filter (\<lambda>u. sms (notifications u)) users) m ''sms'') (\<lambda>_.
     io_bind (sendAlert tw (filter (\<lambda>u. whatsapp (notifications u)) users) m ''whatsapp'') (\<lambda>_.
     io_return ()))"

definition checkMaintenanceThresholds ::
  "twilio_service \<Rightarrow> maintenance \<Rightarrow> user list \<Rightarrow> maintenance io" where
  "checkMaintenanceThresholds tw m users =
     (let criticalIssues = criticalIssues_of m in
      if length criticalIssues > 0 then
        io_bind (send_both tw users (MaintenanceMsg (equipment_name m) ''High'' criticalIssues))
          (\<lambda>_.
        (let m' = m\<lparr>anomalies :=
                     Some ((case anomalies m of None \<Rightarrow> [] | Some xs \<Rightarrow> xs)
                           @ map issue_label criticalIssues)\<rparr> in
         io_bind (save_maintenance m') (\<lambda>_. io_return m')))
      else io_return m)"

subsection \<open>The load and ash checks\<close>

definition percentage :: "real option \<Rightarrow> real option \<Rightarrow> jsnum" where
  "percentage cur cap = js_scale (js_div (num_of cur) (num_of cap)) 100"

definition checkLoadThresholds :: "twilio_service \<Rightarrow> load \<Rightarrow> user list \<Rightarrow> load io" where
  "checkLoadThresholds tw l users =
     (let loadPercentage = percentage (demand_current l) (demand_capacity l) in
      if js_gt loadPercentage (Finite 95) then
        io_bind
          (send_both tw users
             (LoadMsg (demand_current l) (demand_capacity l) ''Critical - Near Capacity''))
          (\<lambda>_.
        (let l' = l\<lparr>l_alerts :=
                     Some ((case l_alerts l of None \<Rightarrow> [] | Some xs \<Rightarrow> xs)
                           @ [\<lparr>la_type = ''Critical Load'',
                               la_message = LoadAtText loadPercentage,
                               la_severity = ''Critical''\<rparr>])\<rparr> in
         io_bind (save_load l') (\<lambda>_. io_return l')))
      else io_return l)"

definition checkAshThresholds :: "twilio_service \<Rightarrow> ash \<Rightarrow> user list \<Rightarrow> ash io" where
  "checkAshThresholds tw a users =
     (let flyAshPercentage = percentage (fly_current a) (fly_capacity a);
          bottomAshPercentage = percentage (bottom_current a) (bottom_capacity a) in
      if js_gt flyAshPercentage (Finite 90) \<or> js_gt bottomAshPercentage (Finite 90) then
        (let criticalType =
               (if js_gt flyAshPercentage bottomAshPercentage then ''Fly Ash''
                else ''Bottom Ash'');
             level = js_max flyAshPercentage bottomAshPercentage in
         io_bind (send_both tw users (AshMsg criticalType level ''Immediate disposal required''))
           (\<lambda>_.
         (let a' = a\<lparr>ash_alerts :=
                      Some ((case ash_alerts a of None \<Rightarrow> [] | Some xs \<Rightarrow> xs)
                            @ [\<lparr>aa_type = ''Storage Full'',
                                aa_message = StorageAtText criticalType level,
                                aa_priority = ''High''\<rparr>])\<rparr> in
          io_bind (save_ash a') (\<lambda>_. io_return a'))))
      else io_return a)"

subsection \<open>The evaluation cycle\<close>

definition when_found :: "'a option \<Rightarrow> ('a \<Rightarrow> 'a io) \<Rightarrow> unit io" where
  "when_found latest check =
     (case latest of None \<Rightarrow> io_return ()
      | Some doc \<Rightarrow> io_bind (check doc) (\<lambda>_. io_return ()))"

text \<open>The statements inside the \<^verbatim>\<open>try\<close> of \<^verbatim>\<open>checkThresholds\<close>.\<close>

definition checkThresholds_body :: "twilio_service \<Rightarrow> unit io" where
  "checkThresholds_body tw =
     io_bind (findLatest store_emission) (\<lambda>latestEmission.
     io_bind (findLatest store_maintenance) (\<lambda>latestMaintenance.
     io_bind (findLatest store_load) (\<lambda>latestLoad.
     io_bind (findLatest store_ash) (\<lambda>latestAsh.
     io_bind findAlertUsers (\<lambda>alertUsers.
     io_bind (when_found latestEmission (\<lambda>d. checkEmissionThresholds tw d alertUsers)) (\<lambda>_.
     io_bind (when_found latestMaintenance (\<lambda>d. checkMaintenanceThresholds tw d alertUsers))
       (\<lambda>_.
     io_bind (when_found latestLoad (\<lambda>d. checkLoadThresholds tw d alertUsers)) (\<lambda>_.
     when_found latestAsh (\<lambda>d. checkAshThresholds tw d alertUsers)))))))))"

definition checkThresholds :: "twilio_service \<Rightarrow> unit io" where
  "checkThresholds tw = try_catch (checkThresholds_body tw) (\<lambda>err. io_return ())"

text \<open>
  \<^verbatim>\<open>generateMockData\<close> builds one random document per collection and saves the four
  in turn inside one \<^verbatim>\<open>try\<close>; the documents it built are the argument here.
\<close>

record mock_batch =
  mb_emission :: emission
  mb_maintenance :: maintenance
  mb_load :: load
  mb_ash :: ash

definition generateMockData :: "mock_batch \<Rightarrow> unit io" where
  "generateMockData b =
     try_catch
       (io_bind (save_emission (mb_emission b)) (\<lambda>_.
        io_bind (save_maintenance (mb_maintenance b)) (\<lambda>_.
        io_bind (save_load (mb_load b)) (\<lambda>_.
        save_ash (mb_ash b)))))
       (\<lambda>err. io_return ())"

text \<open>The callback given to \<^verbatim>\<open>cron.schedule\<close>.\<close>

definition cron_callback :: "twilio_service \<Rightarrow> mock_batch \<Rightarrow> unit io" where
  "cron_callback tw b =
     try_catch (io_bind (generateMockData b) (\<lambda>_. checkThresholds tw)) (\<lambda>err. io_return ())"

text \<open>
  The scheduler, ticks one after the other: the callback of a tick runs to its end
  before the next tick. An exception that leaves the callback ends the run (an
  unhandled rejection); the result counts the ticks whose callback completed.
\<close>

fun run_ticks :: "twilio_service \<Rightarrow> mock_batch list \<Rightarrow> world \<Rightarrow> nat \<times> world" where
  "run_ticks tw [] w = (0, w)"
| "run_ticks tw (b # bs) w =
     (case cron_callback tw b w of
        (Inl e, w') \<Rightarrow> (0, w')
      | (Inr u, w') \<Rightarrow> (case run_ticks tw bs w' of (n, w'') \<Rightarrow> (Suc n, w'')))"

text \<open>
  The scheduler with ticks that may fire during a cycle. The callback awaits
  \<^verbatim>\<open>generateMockData()\<close> and then \<^verbatim>\<open>checkThresholds()\<close>, so a cycle in flight is
  either about to generate the mock data or about to check the thresholds; each of
  the two calls is run as a whole, which leaves out the interleavings inside them.
  \<^verbatim>\<open>cron.schedule\<close> is given the callback and no option, and the callback reads
  no flag: a tick starts a cycle whatever is in flight. \<open>Advance i\<close> lets the
  \<open>i\<close>-th cycle in flight make its next call.
\<close>

datatype phase = Generating mock_batch | Checking

record sched =
  sw :: world
  in_flight :: "phase list"

datatype sched_event = Tick mock_batch | Advance nat

fun sched_step :: "twilio_service \<Rightarrow> sched_event \<Rightarrow> sched \<Rightarrow> sched" where
  "sched_step tw (Tick b) s = s\<lparr>in_flight := in_flight s @ [Generating b]\<rparr>"
| "sched_step tw (Advance i) s =
     (if i < length (in_flight s) then
        (case in_flight s ! i of
           Generating b \<Rightarrow>
             (case generateMockData b (sw s) of
                (Inl e, w') \<Rightarrow>
                  \<lparr>sw = w', in_flight = take i (in_flight s) @ drop (Suc i) (in_flight s)\<rparr>
              | (Inr u, w') \<Rightarrow> \<lparr>sw = w', in_flight = (in_flight s)[i := Checking]\<rparr>)
         | Checking \<Rightarrow>
             \<lparr>sw = snd (checkThresholds tw (sw s)),
              in_flight = take i (in_flight s) @ drop (Suc i) (in_flight s)\<rparr>)
      else s)"

fun sched_run :: "twilio_service \<Rightarrow> sched_event list \<Rightarrow> sched \<Rightarrow> sched" where
  "sched_run tw [] s = s"
| "sched_run tw (ev # evs) s = sched_run tw evs (sched_step tw ev s)"

subsection \<open>The notification routes\<close>

text \<open>
  The handlers of \<^verbatim>\<open>POST /send-sms\<close>, \<^verbatim>\<open>POST /send-whatsapp\<close> and
  \<^verbatim>\<open>POST /broadcast\<close>, after the authentication middleware. The response is the
  status with its message, or the results with their summary (the fields that echo
  the request are left out). The message of the request is taken to be a string. The handlers of \<^verbatim>\<open>/send-sms\<close> and \<^verbatim>\<open>/send-whatsapp\<close>
  differ only in the channel and in the opt-in flag of their query, the two
  arguments of \<open>send_route\<close>.
\<close>

record summary =
  attempted :: nat
  successful :: nat
  failed :: nat

record broadcast_summary =
  bs_totalUsers :: nat
  bs_attempted :: nat
  bs_successful :: nat
  bs_failed :: nat

datatype response =
  Status400 string
| Status404 string
| Status500 string
| Sent "alert_result list" summary
| Broadcast "alert_result list" broadcast_summary

definition findUsersByIds :: "string list \<Rightarrow> (user \<Rightarrow> bool) \<Rightarrow> user list io" where
  "findUsersByIds ids opted =
     io_bind db_access (\<lambda>_. (\<lambda>w.
       (Inr (filter (\<lambda>u. user_id u \<in> set ids \<and> isActive u \<and> opted u) (store_users w)), w)))"

definition send_route ::
  "twilio_service \<Rightarrow> string \<Rightarrow> (user \<Rightarrow> bool) \<Rightarrow> string list option \<Rightarrow> string option \<Rightarrow> bool
     \<Rightarrow> response io" where
  "send_route tw ty opted userIds message urgent =
     try_catch
       (case userIds of
          None \<Rightarrow> io_return (Status400 ''User IDs array required'')
        | Some ids \<Rightarrow>
            if length ids = 0 then io_return (Status400 ''User IDs array required'')
            else if \<not> truthy message then io_return (Status400 ''Message content required'')
            else
              io_bind (findUsersByIds ids opted) (\<lambda>users.
                if length users = 0 then io_return (Status404 ''No eligible users found'')
                else
                  io_bind
                    (sendAlert tw users
                       (Plain (if urgent then ''URGENT - '' @ js_str message else js_str message))
                       ty) (\<lambda>results.
                  io_return
                    (Sent results
                       \<lparr>attempted = length users,
                        successful = length (filter (\<lambda>r. success r) results),
                        failed = length (filter (\<lambda>r. \<not> success r) results)\<rparr>))))
       (\<lambda>err. io_return (Status500 (message_of err)))"

definition send_sms_route ::
  "twilio_service \<Rightarrow> string list option \<Rightarrow> string option \<Rightarrow> bool \<Rightarrow> response io" where
  "send_sms_route tw = send_route tw ''sms'' (\<lambda>u. sms (notifications u))"

definition send_whatsapp_route ::
  "twilio_service \<Rightarrow> string list option \<Rightarrow> string option \<Rightarrow> bool \<Rightarrow> response io" where
  "send_whatsapp_route tw = send_route tw ''whatsapp'' (\<lambda>u. whatsapp (notifications u))"

definition findBroadcastUsers :: "string list \<Rightarrow> user list io" where
  "findBroadcastUsers departments =
     io_bind db_access (\<lambda>_. (\<lambda>w.
       (Inr (filter
               (\<lambda>u. isActive u \<and>
                  (if length departments > 0
                   then (case department u of None \<Rightarrow> False | Some d \<Rightarrow> d \<in> set departments)
                   else True))
               (store_users w)), w)))"

definition broadcast_part ::
  "twilio_service \<Rightarrow> bool \<Rightarrow> user list \<Rightarrow> alert_message \<Rightarrow> string \<Rightarrow> alert_result list io" where
  "broadcast_part tw requested chUsers m ty =
     (if requested \<and> length chUsers > 0
      then io_bind (sendAlert tw chUsers m ty) (\<lambda>rs. io_return (map (\<lambda>r. r\<lparr>res_type := ty\<rparr>) rs))
      else io_return [])"

definition broadcast_route ::
  "twilio_service \<Rightarrow> string option \<Rightarrow> string \<Rightarrow> bool \<Rightarrow> string list \<Rightarrow> response io" where
  "broadcast_route tw message ty urgent departments =
     try_catch
       (if \<not> truthy message then io_return (Status400 ''Message content required'')
        else
          io_bind (findBroadcastUsers departments) (\<lambda>users.
            if length users = 0 then io_return (Status404 ''No eligible users found'')
            else
              (let finalMessage =
                     Plain (if urgent then ''URGENT BROADCAST - '' @ js_str message
                            else ''NTPC BROADCAST - '' @ js_str message) in
               io_bind
                 (broadcast_part tw (ty = ''sms'' \<or> ty = ''both'')
                    (filter (\<lambda>u. sms (notifications u)) users) finalMessage ''sms'') (\<lambda>smsResults.
               io_bind
                 (broadcast_part tw (ty = ''whatsapp'' \<or> ty = ''both'')
                    (filter (\<lambda>u. whatsapp (notifications u)) users) finalMessage ''whatsapp'')
                 (\<lambda>whatsappResults.
               (let results = smsResults @ whatsappResults in
                io_return
                  (Broadcast results
                     \<lparr>bs_totalUsers = length users,
                      bs_attempted = length results,
                      bs_successful = length (filter (\<lambda>r. success r) results),
                      bs_failed = length (filter (\<lambda>r. \<not> success r) results)\<rparr>)))))))
       (\<lambda>err. io_return (Status500 (message_of err)))"

section \<open>Derived notions\<close>

text \<open>
  Functions used to state what the operations above do: the message of an event,
  the channel a send is logged under, the event a send appends to the trace, the events of one dispatch to the
  users opted into each channel, and the alerts and events of a run of the emission
  loop read off the readings.
\<close>

fun event_message :: "event \<Rightarrow> alert_message js_arg" where
  "event_message (Send ch to m d) = Str m"
| "event_message (Send_raw ch to m r) = m"

definition chan :: "string \<Rightarrow> string" where
  "chan ty = (if ty = ''whatsapp'' then ''whatsapp'' else ''sms'')"

definition sent_event :: "twilio_service \<Rightarrow> string \<Rightarrow> string \<Rightarrow> alert_message \<Rightarrow> event" where
  "sent_event tw ty to m =
     Send (chan ty) to m
       (case client tw of
          None \<Rightarrow> Mocked
        | Some gw \<Rightarrow>
            Requested
              (if ty = ''whatsapp''
               then \<lparr>body = Str m, from_addr = Some (''whatsapp:'' @ js_str (phoneNumber tw)),
                     to_addr = Str (''whatsapp:'' @ to)\<rparr>
               else \<lparr>body = Str m, from_addr = phoneNumber tw, to_addr = Str to\<rparr>))"

definition dispatch_events :: "twilio_service \<Rightarrow> user list \<Rightarrow> alert_message \<Rightarrow> event list" where
  "dispatch_events tw users m =
     map (\<lambda>u. sent_event tw ''sms'' (js_str (phone u)) m)
       (filter (\<lambda>u. sms (notifications u) \<and> truthy (phone u)) users)
     @ map (\<lambda>u. sent_event tw ''whatsapp'' (js_str (phone u)) m)
         (filter (\<lambda>u. whatsapp (notifications u) \<and> truthy (phone u)) users)"

fun breach_alerts :: "emission \<Rightarrow> string list \<Rightarrow> emission_alert list" where
  "breach_alerts e [] = []"
| "breach_alerts e (p # ps) =
     (case e_params e p of
        None \<Rightarrow> []
      | Some d \<Rightarrow>
          (case r_value d of
             None \<Rightarrow> breach_alerts e ps
           | Some v \<Rightarrow>
               (case r_threshold d of
                  None \<Rightarrow> breach_alerts e ps
                | Some t \<Rightarrow>
                    if v > t then emission_alert_of p d v t # breach_alerts e ps
                    else breach_alerts e ps)))"

fun breach_events :: "twilio_service \<Rightarrow> user list \<Rightarrow> emission \<Rightarrow> string list \<Rightarrow> event list" where
  "breach_events tw users e [] = []"
| "breach_events tw users e (p # ps) =
     (case e_params e p of
        None \<Rightarrow> []
      | Some d \<Rightarrow>
          (case r_value d of
             None \<Rightarrow> breach_events tw users e ps
           | Some v \<Rightarrow>
               (case r_threshold d of
                  None \<Rightarrow> breach_events tw users e ps
                | Some t \<Rightarrow>
                    if v > t
                    then dispatch_events tw users (emission_message e p d v t)
                         @ breach_events tw users e ps
                    else breach_events tw users e ps)))"

section \<open>Sample data\<close>

definition sample_env_none :: env where
  "sample_env_none = \<lparr>TWILIO_SID = None, TWILIO_AUTH_TOKEN = None, TWILIO_PHONE_NUMBER = None\<rparr>"

definition sample_env_live :: env where
  "sample_env_live =
     \<lparr>TWILIO_SID = Some ''AC01'', TWILIO_AUTH_TOKEN = Some ''secret'',
      TWILIO_PHONE_NUMBER = Some ''+15550100''\<rparr>"

definition gateway_down :: gateway where
  "gateway_down = (\<lambda>n req. Inl (Error ''ETIMEDOUT''))"

definition gateway_up :: gateway where
  "gateway_up = (\<lambda>n req. Inr \<lparr>sid = ''SM1'', status = ''queued''\<rparr>)"

definition empty_world :: world where
  "empty_world =
     \<lparr>db_fault = (\<lambda>n. False), db_ops = 0, store_emission = None, store_maintenance = None,
      store_load = None, store_ash = None, store_users = [], trace = []\<rparr>"

definition user_both :: user where
  "user_both =
     \<lparr>user_id = ''u1'', user_name = ''Asha'', phone = Some ''+911'',
      notifications = \<lparr>sms = True, whatsapp = True\<rparr>, isActive = True,
      department = Some ''Operations''\<rparr>"

definition user_no_phone :: user where
  "user_no_phone =
     \<lparr>user_id = ''u2'', user_name = ''Ravi'', phone = None,
      notifications = \<lparr>sms = True, whatsapp = False\<rparr>, isActive = True,
      department = Some ''Operations''\<rparr>"

definition user_whatsapp_only :: user where
  "user_whatsapp_only =
     \<lparr>user_id = ''u3'', user_name = ''Meena'', phone = Some ''+913'',
      notifications = \<lparr>sms = False, whatsapp = True\<rparr>, isActive = True,
      department = Some ''Environment''\<rparr>"

definition mock_service :: twilio_service where
  "mock_service = TwilioService gateway_up sample_env_none"

definition user_sms_only :: user where
  "user_sms_only =
     \<lparr>user_id = ''u4'', user_name = ''Kiran'', phone = Some ''+914'',
      notifications = \<lparr>sms = True, whatsapp = False\<rparr>, isActive = True,
      department = Some ''Maintenance''\<rparr>"

definition user_empty_phone :: user where
  "user_empty_phone =
     \<lparr>user_id = ''u5'', user_name = ''Dev'', phone = Some [],
      notifications = \<lparr>sms = True, whatsapp = False\<rparr>, isActive = True,
      department = Some ''Operations''\<rparr>"

definition world_empty_phone :: world where
  "world_empty_phone = empty_world\<lparr>store_users := [user_empty_phone]\<rparr>"

definition sample_reading :: "real \<Rightarrow> real \<Rightarrow> reading" where
  "sample_reading v t = \<lparr>r_value = Some v, r_unit = ''mg/Nm3'', r_threshold = Some t\<rparr>"

definition sample_emission :: "real \<Rightarrow> real \<Rightarrow> emission" where
  "sample_emission v t =
     \<lparr>e_params = [''sox'' \<mapsto> sample_reading v t, ''nox'' \<mapsto> sample_reading 250 300,
                  ''co2'' \<mapsto> sample_reading 900 950, ''pm'' \<mapsto> sample_reading 20 30,
                  ''co'' \<mapsto> sample_reading 60 100],
      e_location = Some ''Main Stack'', e_alerts = Some []\<rparr>"

definition sample_emission_no_value :: emission where
  "sample_emission_no_value =
     \<lparr>e_params = [''sox'' \<mapsto> \<lparr>r_value = None, r_unit = ''mg/Nm3'', r_threshold = Some 200\<rparr>,
                  ''nox'' \<mapsto> sample_reading 350 300,
                  ''co2'' \<mapsto> sample_reading 900 950, ''pm'' \<mapsto> sample_reading 20 30,
                  ''co'' \<mapsto> sample_reading 60 100],
      e_location = Some ''Main Stack'', e_alerts = Some []\<rparr>"

definition sample_emission_no_sox :: emission where
  "sample_emission_no_sox =
     \<lparr>e_params = [''nox'' \<mapsto> sample_reading 350 300,
                  ''co2'' \<mapsto> sample_reading 900 950, ''pm'' \<mapsto> sample_reading 20 30,
                  ''co'' \<mapsto> sample_reading 60 100],
      e_location = Some ''Main Stack'', e_alerts = Some []\<rparr>"

definition sample_world :: "emission \<Rightarrow> world" where
  "sample_world e = empty_world\<lparr>store_emission := Some e, store_users := [user_both]\<rparr>"

definition sox_alert :: emission_alert where
  "sox_alert =
     \<lparr>a_parameter = ''sox'', a_message = ExceededText ''SOX'' 260 200 ''mg/Nm3'',
      a_severity = ''High''\<rparr>"

definition sox_events :: "event list" where
  "sox_events =
     [Send ''sms'' ''+911'' (EmissionMsg ''SOX'' 260 ''mg/Nm3'' 200 ''Main Stack'') Mocked,
      Send ''whatsapp'' ''+911'' (EmissionMsg ''SOX'' 260 ''mg/Nm3'' 200 ''Main Stack'') Mocked]"

definition sample_maintenance :: "real \<Rightarrow> maintenance" where
  "sample_maintenance temp =
     \<lparr>equipment_name = ''Boiler-1'',
      parameters = \<lparr>temperature = Some temp, vibration = Some 3, pressure = Some 150,
                    efficiency = Some 90\<rparr>,
      thresholds =
        \<lparr>t_temperature = \<lparr>b_min = Some 0, b_max = Some 550\<rparr>,
         t_vibration = \<lparr>b_min = Some 0, b_max = Some 4.5\<rparr>,
         t_pressure = \<lparr>b_min = Some 0, b_max = Some 180\<rparr>,
         t_efficiency = \<lparr>b_min = Some 85, b_max = Some 100\<rparr>\<rparr>,
      anomalies = Some []\<rparr>"

definition sample_load :: load where
  "sample_load = \<lparr>demand_current = Some 1500, demand_capacity = Some 2100, l_alerts = Some []\<rparr>"

definition sample_ash :: ash where
  "sample_ash =
     \<lparr>fly_current = Some 30000, fly_capacity = Some 50000, bottom_current = Some 9000,
      bottom_capacity = Some 15000, ash_alerts = Some []\<rparr>"

definition sample_batch :: mock_batch where
  "sample_batch =
     \<lparr>mb_emission = sample_emission 260 200, mb_maintenance = sample_maintenance 500,
      mb_load = sample_load, mb_ash = sample_ash\<rparr>"

definition idle_sched :: sched where
  "idle_sched = \<lparr>sw = empty_world\<lparr>store_users := [user_sms_only]\<rparr>, in_flight = []\<rparr>"

definition failing_store :: world where
  "failing_store = empty_world\<lparr>db_fault := (\<lambda>n. True)\<rparr>"

section \<open>Properties\<close>

subsection \<open>Sends and the fan-out\<close>

lemmas io_defs = io_return_def io_throw_def io_bind_def try_catch_def

lemma sendSMS_effect:
  "ty \<noteq> ''whatsapp'' \<Longrightarrow>
     \<exists>r. sendSMS tw (Str to) (Str m) w = (Inr r, w\<lparr>trace := trace w @ [sent_event tw ty to m]\<rparr>)"
  by (cases "client tw")
     (auto simp: sendSMS_def sent_event_def chan_def io_defs mock_log_def messages_create_def
                 to_string_def
           split: sum.splits prod.splits)

lemma sendWhatsApp_effect:
  "\<exists>r. sendWhatsApp tw (Str to) (Str m) w =
         (Inr r, w\<lparr>trace := trace w @ [sent_event tw ''whatsapp'' to m]\<rparr>)"
  by (cases "client tw")
     (auto simp: sendWhatsApp_def sent_event_def chan_def io_defs mock_log_def messages_create_def
                 to_string_def
           split: sum.splits prod.splits)

lemma sendAlert_loop_effect:
  "\<exists>rs. sendAlert_loop tw us m ty acc w =
          (Inr (acc @ rs),
           w\<lparr>trace := trace w @ map (\<lambda>u. sent_event tw ty (js_str (phone u)) m)
                                  (filter (\<lambda>u. \<not> skipped u ty) us)\<rparr>)
        \<and> map res_userId rs = map user_id (filter (\<lambda>u. \<not> skipped u ty) us)
        \<and> map res_phone rs = map (\<lambda>u. js_str (phone u)) (filter (\<lambda>u. \<not> skipped u ty) us)"
proof (induction us arbitrary: acc w)
  case Nil
  show ?case by (simp add: io_defs)
next
  case (Cons u us)
  show ?case
  proof (cases "skipped u ty")
    case True
    with Cons.IH [of acc w] show ?thesis by simp
  next
    case False
    let ?w1 = "w\<lparr>trace := trace w @ [sent_event tw ty (js_str (phone u)) m]\<rparr>"
    obtain r where send:
      "(if ty = ''whatsapp'' then sendWhatsApp tw (Str (js_str (phone u))) (Str m)
        else sendSMS tw (Str (js_str (phone u))) (Str m)) w = (Inr r, ?w1)"
      using sendSMS_effect [of ty tw "js_str (phone u)" m w]
            sendWhatsApp_effect [of tw "js_str (phone u)" m w]
      by (cases "ty = ''whatsapp''") auto
    from Cons.IH [of "acc @ [result_entry u ty r]" ?w1]
    obtain rs where rs:
      "sendAlert_loop tw us m ty (acc @ [result_entry u ty r]) ?w1 =
         (Inr ((acc @ [result_entry u ty r]) @ rs),
          ?w1\<lparr>trace := trace ?w1 @ map (\<lambda>u. sent_event tw ty (js_str (phone u)) m)
                                  (filter (\<lambda>u. \<not> skipped u ty) us)\<rparr>)"
      "map res_userId rs = map user_id (filter (\<lambda>u. \<not> skipped u ty) us)"
      "map res_phone rs = map (\<lambda>u. js_str (phone u)) (filter (\<lambda>u. \<not> skipped u ty) us)"
      by blast
    have "sendAlert_loop tw (u # us) m ty acc w =
            sendAlert_loop tw us m ty (acc @ [result_entry u ty r]) ?w1"
      using False send by (simp add: io_bind_def)
    with rs False show ?thesis
      by (intro exI [of _ "result_entry u ty r # rs"]) (simp add: result_entry_def)
  qed
qed

lemma sendAlert_effect:
  "\<exists>rs. sendAlert tw us m ty w =
          (Inr rs,
           w\<lparr>trace := trace w @ map (\<lambda>u. sent_event tw ty (js_str (phone u)) m)
                                  (filter (\<lambda>u. \<not> skipped u ty) us)\<rparr>)
        \<and> map res_userId rs = map user_id (filter (\<lambda>u. \<not> skipped u ty) us)
        \<and> map res_phone rs = map (\<lambda>u. js_str (phone u)) (filter (\<lambda>u. \<not> skipped u ty) us)"
  using sendAlert_loop_effect [of tw us m ty "[]" w] by (simp add: sendAlert_def)

lemma event_target_sent [simp]: "event_target (sent_event tw ty to m) = (chan ty, to)"
  by (simp add: sent_event_def)

lemma summary_counts_partition:
  "length (filter (\<lambda>r. success r) rs) + length (filter (\<lambda>r. \<not> success r) rs) = length rs"
  by (rule sum_length_filter_compl)

lemma send_route_summary:
  assumes "send_route tw ty opted userIds message urgent w = (Inr (Sent rs s), w')"
  shows "successful s + failed s = length rs \<and> length rs \<le> attempted s"
proof -
  define m where "m = Plain (if urgent then ''URGENT - '' @ js_str message else js_str message)"
  from assms obtain ids users w1 where
    users: "findUsersByIds ids opted w = (Inr users, w1)" and
    send: "sendAlert tw users m ty w1 = (Inr rs, w')" and
    s: "s = \<lparr>attempted = length users, successful = length (filter (\<lambda>r. success r) rs),
            failed = length (filter (\<lambda>r. \<not> success r) rs)\<rparr>"
    by (auto simp: send_route_def io_defs m_def
             split: option.splits if_splits sum.splits prod.splits)
  from sendAlert_effect [of tw users m ty w1] send
  have "map res_userId rs = map user_id (filter (\<lambda>u. \<not> skipped u ty) users)"
    by auto
  then have "length rs = length (filter (\<lambda>u. \<not> skipped u ty) users)"
    by (metis length_map)
  then have "length rs \<le> length users"
    by simp
  with s show ?thesis
    by (simp add: summary_counts_partition)
qed

lemma broadcast_route_summary:
  assumes "broadcast_route tw message ty urgent departments w = (Inr (Broadcast rs s), w')"
  shows "bs_attempted s = bs_successful s + bs_failed s \<and> bs_attempted s = length rs"
proof -
  from assms
  have "bs_attempted s = length rs
      \<and> bs_successful s = length (filter (\<lambda>r. success r) rs)
      \<and> bs_failed s = length (filter (\<lambda>r. \<not> success r) rs)"
    by (auto simp del: filter_append simp: broadcast_route_def io_defs Let_def
             split: option.splits if_splits sum.splits prod.splits)
  then show ?thesis
    using summary_counts_partition [of rs] by simp
qed

lemma filter_opted_sms:
  "filter (\<lambda>u. \<not> skipped u ''sms'') (filter (\<lambda>u. sms (notifications u)) users) =
     filter (\<lambda>u. sms (notifications u) \<and> truthy (phone u)) users"
  by (induction users) (auto simp: skipped_def)

lemma filter_opted_whatsapp:
  "filter (\<lambda>u. \<not> skipped u ''whatsapp'') (filter (\<lambda>u. whatsapp (notifications u)) users) =
     filter (\<lambda>u. whatsapp (notifications u) \<and> truthy (phone u)) users"
  by (induction users) (auto simp: skipped_def)

lemma sendAlert_opted_sms:
  "\<exists>rs. sendAlert tw (filter (\<lambda>u. sms (notifications u)) users) m ''sms'' w =
     (Inr rs, w\<lparr>trace := trace w @ map (\<lambda>u. sent_event tw ''sms'' (js_str (phone u)) m)
                 (filter (\<lambda>u. sms (notifications u) \<and> truthy (phone u)) users)\<rparr>)"
  using sendAlert_effect [of tw "filter (\<lambda>u. sms (notifications u)) users" m "''sms''" w]
  unfolding filter_opted_sms by blast

lemma sendAlert_opted_whatsapp:
  "\<exists>rs. sendAlert tw (filter (\<lambda>u. whatsapp (notifications u)) users) m ''whatsapp'' w =
     (Inr rs, w\<lparr>trace := trace w @ map (\<lambda>u. sent_event tw ''whatsapp'' (js_str (phone u)) m)
                 (filter (\<lambda>u. whatsapp (notifications u) \<and> truthy (phone u)) users)\<rparr>)"
  using sendAlert_effect [of tw "filter (\<lambda>u. whatsapp (notifications u)) users" m "''whatsapp''" w]
  unfolding filter_opted_whatsapp by blast

lemma send_both_effect:
  "send_both tw users m w = (Inr (), w\<lparr>trace := trace w @ dispatch_events tw users m\<rparr>)"
proof -
  obtain rs1 where s1:
    "sendAlert tw (filter (\<lambda>u. sms (notifications u)) users) m ''sms'' w =
       (Inr rs1, w\<lparr>trace := trace w @ map (\<lambda>u. sent_event tw ''sms'' (js_str (phone u)) m)
                 (filter (\<lambda>u. sms (notifications u) \<and> truthy (phone u)) users)\<rparr>)"
    using sendAlert_opted_sms by blast
  let ?w1 = "w\<lparr>trace := trace w @ map (\<lambda>u. sent_event tw ''sms'' (js_str (phone u)) m)
                 (filter (\<lambda>u. sms (notifications u) \<and> truthy (phone u)) users)\<rparr>"
  obtain rs2 where s2:
    "sendAlert tw (filter (\<lambda>u. whatsapp (notifications u)) users) m ''whatsapp'' ?w1 =
       (Inr rs2, ?w1\<lparr>trace := trace ?w1 @ map (\<lambda>u. sent_event tw ''whatsapp'' (js_str (phone u)) m)
                 (filter (\<lambda>u. whatsapp (notifications u) \<and> truthy (phone u)) users)\<rparr>)"
    using sendAlert_opted_whatsapp by blast
  show ?thesis
    by (simp add: send_both_def io_defs s1 s2 dispatch_events_def)
qed

lemma emission_dispatch_effect:
  "emission_dispatch tw users m w = (Inr (), w\<lparr>trace := trace w @ dispatch_events tw users m\<rparr>)"
proof -
  let ?sms = "filter (\<lambda>u. sms (notifications u)) users"
  let ?wa = "filter (\<lambda>u. whatsapp (notifications u)) users"
  let ?ev1 = "map (\<lambda>u. sent_event tw ''sms'' (js_str (phone u)) m)
                 (filter (\<lambda>u. sms (notifications u) \<and> truthy (phone u)) users)"
  let ?ev2 = "map (\<lambda>u. sent_event tw ''whatsapp'' (js_str (phone u)) m)
                 (filter (\<lambda>u. whatsapp (notifications u) \<and> truthy (phone u)) users)"
  let ?w1 = "w\<lparr>trace := trace w @ ?ev1\<rparr>"
  define part1 where "part1 =
    (let smsUsers = ?sms in
        if length smsUsers > 0
        then io_bind (sendAlert tw smsUsers m ''sms'') (\<lambda>_. io_return ())
        else io_return ())"
  define part2 where "part2 =
    (let whatsappUsers = ?wa in
        if length whatsappUsers > 0
        then io_bind (sendAlert tw whatsappUsers m ''whatsapp'') (\<lambda>_. io_return ())
        else io_return ())"
  have e1: "?sms = [] \<Longrightarrow> ?ev1 = []"
    by (auto simp: filter_empty_conv)
  have e2: "?wa = [] \<Longrightarrow> ?ev2 = []"
    by (auto simp: filter_empty_conv)
  obtain rs1 where s1: "sendAlert tw ?sms m ''sms'' w = (Inr rs1, ?w1)"
    using sendAlert_opted_sms by blast
  obtain rs2 where s2:
    "sendAlert tw ?wa m ''whatsapp'' ?w1 = (Inr rs2, ?w1\<lparr>trace := trace ?w1 @ ?ev2\<rparr>)"
    using sendAlert_opted_whatsapp by blast
  have first: "part1 w = (Inr (), ?w1)"
    unfolding part1_def using e1 s1 by (cases "?sms = []") (simp_all add: io_defs)
  have second: "part2 ?w1 = (Inr (), ?w1\<lparr>trace := trace ?w1 @ ?ev2\<rparr>)"
    unfolding part2_def using e2 s2 by (cases "?wa = []") (simp_all add: io_defs)
  have "emission_dispatch tw users m = io_bind part1 (\<lambda>_. part2)"
    by (simp only: emission_dispatch_def part1_def part2_def)
  then show ?thesis
    using first second by (simp add: io_bind_def dispatch_events_def)
qed

lemma save_emission_run:
  "save_emission e w =
     (if db_fault w (db_ops w) then (Inl (Error ''store operation failed''), w\<lparr>db_ops := Suc (db_ops w)\<rparr>)
      else (Inr (), w\<lparr>db_ops := Suc (db_ops w), store_emission := Some e\<rparr>))"
  by (simp add: save_emission_def db_access_def io_defs)

lemma loop_breach:
  assumes "e_params e p = Some d" "r_value d = Some v" "r_threshold d = Some t" "v > t"
  shows "checkEmission_loop tw users (p # ps) e w =
     (if db_fault w (db_ops w)
      then (Inl (Error ''store operation failed''),
            w\<lparr>trace := trace w @ dispatch_events tw users (emission_message e p d v t),
              db_ops := Suc (db_ops w)\<rparr>)
      else checkEmission_loop tw users ps (push_emission_alert e (emission_alert_of p d v t))
             (w\<lparr>trace := trace w @ dispatch_events tw users (emission_message e p d v t),
                db_ops := Suc (db_ops w),
                store_emission := Some (push_emission_alert e (emission_alert_of p d v t))\<rparr>))"
  using assms by (simp add: io_bind_def emission_dispatch_effect save_emission_run)

lemma loop_no_breach:
  assumes "e_params e p = Some d"
    and "r_value d = None \<or> r_threshold d = None
         \<or> (\<exists>v t. r_value d = Some v \<and> r_threshold d = Some t \<and> v \<le> t)"
  shows "checkEmission_loop tw users (p # ps) e = checkEmission_loop tw users ps e"
  using assms by (auto split: option.splits)


lemma breach_alerts_push [simp]:
  "breach_alerts (push_emission_alert e a) ps = breach_alerts e ps"
  by (induction ps) (auto simp: push_emission_alert_def split: option.splits)

lemma breach_events_push [simp]:
  "breach_events tw users (push_emission_alert e a) ps = breach_events tw users e ps"
  by (induction ps)
     (auto simp: push_emission_alert_def emission_message_def split: option.splits)

lemma params_of_push [simp]:
  "e_params (push_emission_alert e a) = e_params e"
  "e_location (push_emission_alert e a) = e_location e"
  by (simp_all add: push_emission_alert_def)

lemma alerts_of_push [simp]: "alerts_of (push_emission_alert e a) = alerts_of e @ [a]"
  by (simp add: alerts_of_def push_emission_alert_def)

lemma loop_result:
  "checkEmission_loop tw users ps e w = (Inr e', w') \<Longrightarrow>
     e_params e' = e_params e \<and> e_location e' = e_location e
     \<and> alerts_of e' = alerts_of e @ breach_alerts e ps
     \<and> trace w' = trace w @ breach_events tw users e ps"
proof (induction ps arbitrary: e w)
  case Nil
  then show ?case by (simp add: io_return_def)
next
  case (Cons p ps)
  show ?case
  proof (cases "e_params e p")
    case None
    with Cons.prems show ?thesis by (simp add: io_throw_def)
  next
    case (Some d)
    show ?thesis
    proof (cases "\<exists>v t. r_value d = Some v \<and> r_threshold d = Some t \<and> v > t")
      case True
      then obtain v t where vt: "r_value d = Some v" "r_threshold d = Some t" "v > t"
        by blast
      let ?e1 = "push_emission_alert e (emission_alert_of p d v t)"
      let ?w1 = "w\<lparr>trace := trace w @ dispatch_events tw users (emission_message e p d v t),
                db_ops := Suc (db_ops w), store_emission := Some ?e1\<rparr>"
      from Cons.prems have nofault: "\<not> db_fault w (db_ops w)"
        and rest: "checkEmission_loop tw users ps ?e1 ?w1 = (Inr e', w')"
        unfolding loop_breach [OF Some vt] by (auto split: if_splits)
      from Cons.IH [OF rest] Some vt show ?thesis
        by simp
    next
      case False
      then have skip: "r_value d = None \<or> r_threshold d = None
         \<or> (\<exists>v t. r_value d = Some v \<and> r_threshold d = Some t \<and> v \<le> t)"
        by (cases "r_value d"; cases "r_threshold d") (auto simp: not_less)
      from Cons.prems have rest: "checkEmission_loop tw users ps e w = (Inr e', w')"
        unfolding loop_no_breach [OF Some skip] .
      from Cons.IH [OF rest] Some skip show ?thesis
        by (auto split: option.splits)
    qed
  qed
qed

subsection \<open>Runs of the checks\<close>

declare checkEmission_loop.simps(2) [simp del]

lemmas run_defs =
  checkEmission_loop.simps io_defs to_string_def checkThresholds_def checkThresholds_body_def findLatest_def findAlertUsers_def
  db_access_def when_found_def checkEmissionThresholds_def emission_parameters_def
  emission_dispatch_def sendAlert_def skipped_def sendSMS_def sendWhatsApp_def mock_log_def
  result_entry_def save_emission_def push_emission_alert_def alerts_of_def
  emission_alert_of_def emission_message_def toUpperCase_def upper_char_def

lemmas sample_defs =
  sample_reading_def sample_emission_def sample_emission_no_sox_def sample_world_def
  sample_emission_no_value_def empty_world_def user_both_def user_no_phone_def
  user_whatsapp_only_def user_sms_only_def user_empty_phone_def world_empty_phone_def
  mock_service_def TwilioService_def sample_env_none_def sox_alert_def sox_events_def

lemma loop_single_breach:
  assumes "e_params e p = Some d" "r_value d = Some v" "r_threshold d = Some t" "v > t"
  shows "checkEmission_loop tw users [p] e w =
     (if db_fault w (db_ops w)
      then (Inl (Error ''store operation failed''),
            w\<lparr>trace := trace w @ dispatch_events tw users (emission_message e p d v t),
              db_ops := Suc (db_ops w)\<rparr>)
      else (Inr (push_emission_alert e (emission_alert_of p d v t)),
             w\<lparr>trace := trace w @ dispatch_events tw users (emission_message e p d v t),
                db_ops := Suc (db_ops w),
                store_emission := Some (push_emission_alert e (emission_alert_of p d v t))\<rparr>))"
  unfolding loop_breach [OF assms] by (simp add: io_return_def)


lemma event_target_dispatch:
  "map event_target (dispatch_events tw users m) =
     map (\<lambda>u. (''sms'', js_str (phone u)))
       (filter (\<lambda>u. sms (notifications u) \<and> truthy (phone u)) users)
     @ map (\<lambda>u. (''whatsapp'', js_str (phone u)))
         (filter (\<lambda>u. whatsapp (notifications u) \<and> truthy (phone u)) users)"
  by (simp add: dispatch_events_def chan_def comp_def)

lemma save_maintenance_run:
  "save_maintenance m w =
     (if db_fault w (db_ops w)
      then (Inl (Error ''store operation failed''), w\<lparr>db_ops := Suc (db_ops w)\<rparr>)
      else (Inr (), w\<lparr>db_ops := Suc (db_ops w), store_maintenance := Some m\<rparr>))"
  by (simp add: save_maintenance_def db_access_def io_defs)

lemma maintenance_run:
  "checkMaintenanceThresholds tw m users w =
     (if criticalIssues_of m = [] then (Inr m, w)
      else if db_fault w (db_ops w)
      then (Inl (Error ''store operation failed''),
            w\<lparr>trace := trace w @ dispatch_events tw users
                   (MaintenanceMsg (equipment_name m) ''High'' (criticalIssues_of m)),
              db_ops := Suc (db_ops w)\<rparr>)
      else (Inr (m\<lparr>anomalies := Some ((case anomalies m of None \<Rightarrow> [] | Some xs \<Rightarrow> xs)
                                      @ map issue_label (criticalIssues_of m))\<rparr>),
            w\<lparr>trace := trace w @ dispatch_events tw users
                   (MaintenanceMsg (equipment_name m) ''High'' (criticalIssues_of m)),
              db_ops := Suc (db_ops w),
              store_maintenance :=
                Some (m\<lparr>anomalies := Some ((case anomalies m of None \<Rightarrow> [] | Some xs \<Rightarrow> xs)
                                           @ map issue_label (criticalIssues_of m))\<rparr>)\<rparr>))"
  by (simp add: checkMaintenanceThresholds_def Let_def io_bind_def io_return_def
        send_both_effect save_maintenance_run)

lemma event_message_dispatch:
  "list_all (\<lambda>ev. event_message ev = Str m) (dispatch_events tw users m)"
  by (auto simp: dispatch_events_def sent_event_def list_all_iff)

lemma length_dispatch:
  "length (dispatch_events tw users m) =
     length (filter (\<lambda>u. sms (notifications u) \<and> truthy (phone u)) users)
     + length (filter (\<lambda>u. whatsapp (notifications u) \<and> truthy (phone u)) users)"
  by (simp add: dispatch_events_def)

lemma try_catch_swallows: "fst (try_catch act (\<lambda>err. io_return ()) w) = Inr ()"
  by (simp add: try_catch_def io_return_def split: prod.splits sum.splits)

lemma cron_callback_returns: "cron_callback tw b w = (Inr (), snd (cron_callback tw b w))"
  using try_catch_swallows [of "io_bind (generateMockData b) (\<lambda>_. checkThresholds tw)" w]
  by (simp add: cron_callback_def prod_eq_iff)

lemma run_ticks_all: "fst (run_ticks tw bs w) = length bs"
proof (induction bs arbitrary: w)
  case Nil
  show ?case by simp
next
  case (Cons b bs)
  obtain w1 where cb: "cron_callback tw b w = (Inr (), w1)"
    using cron_callback_returns by blast
  obtain n w2 where rest: "run_ticks tw bs w1 = (n, w2)"
    by (cases "run_ticks tw bs w1")
  from Cons.IH [of w1] rest have "n = length bs"
    by simp
  with cb rest show ?case
    by simp
qed

lemmas cycle_defs =
  checkMaintenanceThresholds_def criticalIssues_of_def send_both_def save_maintenance_def
  checkLoadThresholds_def percentage_def save_load_def checkAshThresholds_def save_ash_def
  generateMockData_def messages_create_def Let_def

lemma generateMockData_returns:
  "generateMockData b w = (Inr (), snd (generateMockData b w))"
  using try_catch_swallows [of _ w]
  by (simp add: generateMockData_def prod_eq_iff)

section \<open>The claims\<close>

text \<open>
  C1. The emission check keeps no record of what it has raised. Run
  again on the snapshot it has just annotated, with no new data, it appends once
  more exactly the alert entries that the first run appended (the same entries up
  to their timestamps) and makes the first run's deliveries again: a parameter
  already annotated on the snapshot is raised a second time. The theorem
  \<open>recheck_duplicates\<close> runs \<^verbatim>\<open>checkThresholds\<close> twice on a store whose latest
  emission has SOx at 260 against 200: the stored snapshot ends with two alerts for
  \<^verbatim>\<open>sox\<close> and the user has been sent to four times.
\<close>

theorem recheck_repeats:
  assumes "checkEmissionThresholds tw e users w = (Inr e', w')"
    and "checkEmissionThresholds tw e' users w' = (Inr e'', w'')"
  shows "alerts_of e'' = alerts_of e' @ drop (length (alerts_of e)) (alerts_of e')
     \<and> drop (length (trace w')) (trace w'') = drop (length (trace w)) (trace w')"
proof -
  let ?ps = emission_parameters
  from assms(1) have r1:
    "e_params e' = e_params e" "e_location e' = e_location e"
    "alerts_of e' = alerts_of e @ breach_alerts e ?ps"
    "trace w' = trace w @ breach_events tw users e ?ps"
    using loop_result [of tw users ?ps e w e' w']
    by (simp_all add: checkEmissionThresholds_def)
  from assms(2) have r2:
    "alerts_of e'' = alerts_of e' @ breach_alerts e' ?ps"
    "trace w'' = trace w' @ breach_events tw users e' ?ps"
    using loop_result [of tw users ?ps e' w' e'' w'']
    by (simp_all add: checkEmissionThresholds_def)
  have same: "breach_alerts e' ps = breach_alerts e ps"
    "breach_events tw users e' ps = breach_events tw users e ps" for ps
    using r1(1,2) by (induction ps) (auto simp: emission_message_def split: option.splits)
  show ?thesis
    using r1 r2 by (simp add: same)
qed

theorem recheck_repeats_witness:
  "checkEmissionThresholds mock_service (sample_emission 260 200) [user_both] empty_world =
     (Inr (push_emission_alert (sample_emission 260 200) sox_alert),
      empty_world\<lparr>db_ops := 1, trace := sox_events,
        store_emission := Some (push_emission_alert (sample_emission 260 200) sox_alert)\<rparr>)
   \<and> checkEmissionThresholds mock_service
        (push_emission_alert (sample_emission 260 200) sox_alert) [user_both]
        (empty_world\<lparr>db_ops := 1, trace := sox_events,
           store_emission := Some (push_emission_alert (sample_emission 260 200) sox_alert)\<rparr>) =
     (Inr (push_emission_alert (push_emission_alert (sample_emission 260 200) sox_alert)
             sox_alert),
      empty_world\<lparr>db_ops := 2, trace := sox_events @ sox_events,
        store_emission :=
          Some (push_emission_alert (push_emission_alert (sample_emission 260 200) sox_alert)
                  sox_alert)\<rparr>)
   \<and> alerts_of (push_emission_alert (push_emission_alert (sample_emission 260 200) sox_alert)
                  sox_alert) = [sox_alert, sox_alert]
   \<and> drop (length sox_events) (sox_events @ sox_events) = sox_events"
proof -
  have r1:
    "checkEmissionThresholds mock_service (sample_emission 260 200) [user_both] empty_world =
     (Inr (push_emission_alert (sample_emission 260 200) sox_alert),
      empty_world\<lparr>db_ops := 1, trace := sox_events,
        store_emission := Some (push_emission_alert (sample_emission 260 200) sox_alert)\<rparr>)"
    by (simp add: run_defs sample_defs)
  have r2:
    "checkEmissionThresholds mock_service
        (push_emission_alert (sample_emission 260 200) sox_alert) [user_both]
        (empty_world\<lparr>db_ops := 1, trace := sox_events,
           store_emission := Some (push_emission_alert (sample_emission 260 200) sox_alert)\<rparr>) =
     (Inr (push_emission_alert (push_emission_alert (sample_emission 260 200) sox_alert)
             sox_alert),
      empty_world\<lparr>db_ops := 2, trace := sox_events @ sox_events,
        store_emission :=
          Some (push_emission_alert (push_emission_alert (sample_emission 260 200) sox_alert)
                  sox_alert)\<rparr>)"
    by (simp add: run_defs sample_defs)
  from recheck_repeats [OF r1 r2]
  have "alerts_of (push_emission_alert (push_emission_alert (sample_emission 260 200) sox_alert)
                  sox_alert) = [sox_alert, sox_alert]
     \<and> drop (length sox_events) (sox_events @ sox_events) = sox_events"
    by (simp add: alerts_of_def push_emission_alert_def sample_emission_def)
  with r1 r2 show ?thesis
    by blast
qed

theorem recheck_duplicates:
  "map_option (map a_parameter \<circ> alerts_of)
     (store_emission (snd (checkThresholds mock_service
        (snd (checkThresholds mock_service (sample_world (sample_emission 260 200))))))) =
     Some [''sox'', ''sox'']
   \<and> map event_target
       (trace (snd (checkThresholds mock_service
          (snd (checkThresholds mock_service (sample_world (sample_emission 260 200))))))) =
     [(''sms'', ''+911''), (''whatsapp'', ''+911''), (''sms'', ''+911''), (''whatsapp'', ''+911'')]"
  by (simp add: run_defs sample_defs)







text \<open>
  C3. For a destination and a message that are strings: a service made
  without credentials returns the mocked success from \<^verbatim>\<open>sendSMS\<close> and
  \<^verbatim>\<open>sendWhatsApp\<close> and appends only the line of the simulated delivery, so no
  request reaches the gateway; with credentials, a gateway call that throws gives
  the failed result carrying the error's message; and no send throws, whatever
  the service and the world. With credentials no send throws whatever its
  arguments. Without credentials a send whose destination or message is a value
  that cannot be converted to a string throws that \<^verbatim>\<open>TypeError\<close> to its caller:
  \<open>unconfigured_send_throws\<close> is such a send.
\<close>

theorem send_outcome:
  "(\<not> (truthy (TWILIO_SID env) \<and> truthy (TWILIO_AUTH_TOKEN env)) \<longrightarrow>
      sendSMS (TwilioService gw env) (Str to) (Str m) w =
        (Inr \<lparr>success = True, mock = True, messageId = None, msg_status = None, error = None\<rparr>,
         w\<lparr>trace := trace w @ [Send ''sms'' to m Mocked]\<rparr>)
      \<and> sendWhatsApp (TwilioService gw env) (Str to) (Str m) w =
        (Inr \<lparr>success = True, mock = True, messageId = None, msg_status = None, error = None\<rparr>,
         w\<lparr>trace := trace w @ [Send ''whatsapp'' to m Mocked]\<rparr>)
      \<and> fst (sendSMS (TwilioService gw env) Unprintable a w) =
          Inl (TypeError ''Cannot convert object to primitive value'')
      \<and> fst (sendSMS (TwilioService gw env) (Str to) Unprintable w) =
          Inl (TypeError ''Cannot convert object to primitive value'')
      \<and> fst (sendWhatsApp (TwilioService gw env) Unprintable a w) =
          Inl (TypeError ''Cannot convert object to primitive value'')
      \<and> fst (sendWhatsApp (TwilioService gw env) (Str to) Unprintable w) =
          Inl (TypeError ''Cannot convert object to primitive value''))
   \<and> (truthy (TWILIO_SID env) \<and> truthy (TWILIO_AUTH_TOKEN env) \<longrightarrow>
        (\<forall>e. gw (length (filter is_request (trace w)))
                \<lparr>body = Str m, from_addr = TWILIO_PHONE_NUMBER env, to_addr = Str to\<rparr> = Inl e \<longrightarrow>
             fst (sendSMS (TwilioService gw env) (Str to) (Str m) w) =
               Inr \<lparr>success = False, mock = False, messageId = None, msg_status = None,
                    error = Some (message_of e)\<rparr>)
        \<and> (\<forall>e. gw (length (filter is_request (trace w)))
                \<lparr>body = Str m,
                 from_addr = Some (''whatsapp:'' @ js_str (TWILIO_PHONE_NUMBER env)),
                 to_addr = Str (''whatsapp:'' @ to)\<rparr> = Inl e \<longrightarrow>
             fst (sendWhatsApp (TwilioService gw env) (Str to) (Str m) w) =
               Inr \<lparr>success = False, mock = False, messageId = None, msg_status = None,
                    error = Some (message_of e)\<rparr>)
        \<and> (\<exists>r w'. sendSMS (TwilioService gw env) b a w = (Inr r, w'))
        \<and> (\<exists>r w'. sendWhatsApp (TwilioService gw env) b a w = (Inr r, w')))
   \<and> (\<exists>r w'. sendSMS tw (Str to) (Str m) w = (Inr r, w'))
   \<and> (\<exists>r w'. sendWhatsApp tw (Str to) (Str m) w = (Inr r, w'))"
proof -
  let ?tw = "TwilioService gw env"
  have mock: "sendSMS ?tw (Str to) (Str m) w =
        (Inr \<lparr>success = True, mock = True, messageId = None, msg_status = None, error = None\<rparr>,
         w\<lparr>trace := trace w @ [Send ''sms'' to m Mocked]\<rparr>)
      \<and> sendWhatsApp ?tw (Str to) (Str m) w =
        (Inr \<lparr>success = True, mock = True, messageId = None, msg_status = None, error = None\<rparr>,
         w\<lparr>trace := trace w @ [Send ''whatsapp'' to m Mocked]\<rparr>)
      \<and> fst (sendSMS ?tw Unprintable a w) =
          Inl (TypeError ''Cannot convert object to primitive value'')
      \<and> fst (sendSMS ?tw (Str to) Unprintable w) =
          Inl (TypeError ''Cannot convert object to primitive value'')
      \<and> fst (sendWhatsApp ?tw Unprintable a w) =
          Inl (TypeError ''Cannot convert object to primitive value'')
      \<and> fst (sendWhatsApp ?tw (Str to) Unprintable w) =
          Inl (TypeError ''Cannot convert object to primitive value'')"
    if "\<not> (truthy (TWILIO_SID env) \<and> truthy (TWILIO_AUTH_TOKEN env))"
  proof -
    from that have none: "client ?tw = None"
      by (simp add: TwilioService_def)
    show ?thesis
      by (simp add: sendSMS_def sendWhatsApp_def none io_defs mock_log_def to_string_def)
  qed
  have live: "(\<forall>e. gw (length (filter is_request (trace w)))
                \<lparr>body = Str m, from_addr = TWILIO_PHONE_NUMBER env, to_addr = Str to\<rparr> = Inl e \<longrightarrow>
             fst (sendSMS ?tw (Str to) (Str m) w) =
               Inr \<lparr>success = False, mock = False, messageId = None, msg_status = None,
                    error = Some (message_of e)\<rparr>)
        \<and> (\<forall>e. gw (length (filter is_request (trace w)))
                \<lparr>body = Str m,
                 from_addr = Some (''whatsapp:'' @ js_str (TWILIO_PHONE_NUMBER env)),
                 to_addr = Str (''whatsapp:'' @ to)\<rparr> = Inl e \<longrightarrow>
             fst (sendWhatsApp ?tw (Str to) (Str m) w) =
               Inr \<lparr>success = False, mock = False, messageId = None, msg_status = None,
                    error = Some (message_of e)\<rparr>)
        \<and> (\<exists>r w'. sendSMS ?tw b a w = (Inr r, w'))
        \<and> (\<exists>r w'. sendWhatsApp ?tw b a w = (Inr r, w'))"
    if cfg: "truthy (TWILIO_SID env) \<and> truthy (TWILIO_AUTH_TOKEN env)"
  proof -
    from cfg have some: "client ?tw = Some gw"
      and ph: "phoneNumber ?tw = TWILIO_PHONE_NUMBER env"
      by (simp_all add: TwilioService_def)
    have sms: "\<exists>r w'. sendSMS ?tw b a w = (Inr r, w')"
      by (simp add: sendSMS_def some io_defs messages_create_def split: sum.splits prod.splits)
    have wa: "\<exists>r w'. sendWhatsApp ?tw b a w = (Inr r, w')"
      by (cases b)
         (simp_all add: sendWhatsApp_def some io_defs messages_create_def to_string_def
            split: sum.splits prod.splits)
    show ?thesis
      using sms wa
      by (simp add: sendSMS_def sendWhatsApp_def some ph io_defs messages_create_def
            to_string_def)
  qed
  have s1: "\<exists>r w'. sendSMS tw (Str to) (Str m) w = (Inr r, w')"
    using sendSMS_effect [of "''sms''" tw to m w] by auto
  have s2: "\<exists>r w'. sendWhatsApp tw (Str to) (Str m) w = (Inr r, w')"
    using sendWhatsApp_effect [of tw to m w] by auto
  from mock live s1 s2 show ?thesis
    by blast
qed

theorem send_outcome_witness:
  "sendSMS (TwilioService gateway_up sample_env_none) (Str ''+911'') (Str (Plain ''test''))
      empty_world =
     (Inr \<lparr>success = True, mock = True, messageId = None, msg_status = None, error = None\<rparr>,
      empty_world\<lparr>trace := [Send ''sms'' ''+911'' (Plain ''test'') Mocked]\<rparr>)
   \<and> fst (sendSMS (TwilioService gateway_down sample_env_live) (Str ''+911'')
            (Str (Plain ''test'')) empty_world) =
       Inr \<lparr>success = False, mock = False, messageId = None, msg_status = None,
            error = Some ''ETIMEDOUT''\<rparr>
   \<and> fst (sendWhatsApp (TwilioService gateway_down sample_env_live) (Str ''+911'')
            (Str (Plain ''test'')) empty_world) =
       Inr \<lparr>success = False, mock = False, messageId = None, msg_status = None,
            error = Some ''ETIMEDOUT''\<rparr>"
  using send_outcome [of sample_env_none gateway_up "''+911''" "Plain ''test''" empty_world]
        send_outcome [of sample_env_live gateway_down "''+911''" "Plain ''test''" empty_world]
  by (simp add: sample_env_none_def sample_env_live_def gateway_down_def empty_world_def)

theorem unconfigured_send_throws:
  "sendSMS (TwilioService gateway_up sample_env_none) Unprintable (Str (Plain ''test''))
      empty_world =
     (Inl (TypeError ''Cannot convert object to primitive value''), empty_world)"
  by (simp add: sendSMS_def TwilioService_def sample_env_none_def io_defs to_string_def)

text \<open>
  C4. \<^verbatim>\<open>checkThresholds\<close> never throws, and neither does the cron callback, so a
  run of ticks completes the callback of every tick. This rests on the \<^verbatim>\<open>try\<close>
  alone, whose handler only logs: whatever the statements inside it do, the
  function returns. The exceptions are real and are caught inside: the statements inside the \<^verbatim>\<open>try\<close> throw when the store
  fails on the first read and when the classification meets a snapshot without a
  \<^verbatim>\<open>sox\<close> entry, and a gateway that fails on every send does not make them throw
  at all, the send having turned the error into a failed result.
\<close>

theorem cycle_catches_exceptions:
  "fst (checkThresholds tw w) = Inr ()
   \<and> fst (cron_callback tw b w) = Inr ()
   \<and> fst (run_ticks tw bs w) = length bs
   \<and> fst (try_catch act (\<lambda>err. io_return ()) w) = Inr ()
   \<and> fst (checkThresholds_body mock_service failing_store) =
       Inl (Error ''store operation failed'')
   \<and> fst (checkThresholds_body mock_service (sample_world sample_emission_no_sox)) =
       Inl (TypeError ''Cannot read properties of undefined (reading 'value')'')
   \<and> fst (checkThresholds_body (TwilioService gateway_down sample_env_live)
            (sample_world (sample_emission 260 200))) = Inr ()"
proof -
  have a: "fst (checkThresholds tw w) = Inr ()"
    by (simp add: checkThresholds_def try_catch_swallows)
  have b: "fst (cron_callback tw b w) = Inr ()"
    by (simp add: cron_callback_def try_catch_swallows)
  have c: "fst (checkThresholds_body mock_service failing_store) =
       Inl (Error ''store operation failed'')"
    by (simp add: run_defs failing_store_def empty_world_def)
  have d: "fst (checkThresholds_body mock_service (sample_world sample_emission_no_sox)) =
       Inl (TypeError ''Cannot read properties of undefined (reading 'value')'')"
    by (simp add: run_defs sample_defs)
  have e: "fst (checkThresholds_body (TwilioService gateway_down sample_env_live)
            (sample_world (sample_emission 260 200))) = Inr ()"
    by (simp add: run_defs sample_defs messages_create_def sample_env_live_def
          gateway_down_def)
  from a b c d e run_ticks_all try_catch_swallows show ?thesis
    by simp
qed

theorem cycle_catches_exceptions_witness:
  "fst (checkThresholds mock_service failing_store) = Inr ()
   \<and> fst (cron_callback mock_service sample_batch failing_store) = Inr ()
   \<and> fst (run_ticks mock_service [sample_batch, sample_batch, sample_batch] failing_store) = 3"
  using cycle_catches_exceptions [of mock_service failing_store sample_batch
      "[sample_batch, sample_batch, sample_batch]"]
  by simp

text \<open>
  C5. A tick is never skipped: whatever cycles are in flight, a tick
  adds a cycle of its own and changes nothing else, and letting that cycle run
  generates the mock data and checks the thresholds on the world as it then is,
  with its own reads of the store, its own evaluation and its own deliveries. The
  theorem \<open>overlapping_tick_runs\<close> fires a second tick while the cycle of
  the first waits to check the thresholds: two cycles are in flight, both check
  the same latest snapshot, the user is sent to twice and the snapshot is
  annotated twice for \<^verbatim>\<open>sox\<close>.
\<close>

theorem tick_always_starts_cycle:
  "in_flight (sched_step tw (Tick b) s) = in_flight s @ [Generating b]
   \<and> sw (sched_step tw (Tick b) s) = sw s
   \<and> sched_run tw [Tick b, Advance (length (in_flight s)), Advance (length (in_flight s))] s =
       s\<lparr>sw := snd (checkThresholds tw (snd (generateMockData b (sw s))))\<rparr>"
proof -
  let ?n = "length (in_flight s)"
  let ?s1 = "sched_step tw (Tick b) s"
  have s1: "?s1 = s\<lparr>in_flight := in_flight s @ [Generating b]\<rparr>"
    by simp
  obtain w1 where g: "generateMockData b (sw s) = (Inr (), w1)"
    using generateMockData_returns by blast
  have s2: "sched_step tw (Advance ?n) ?s1 =
              \<lparr>sw = w1, in_flight = in_flight s @ [Checking]\<rparr>"
    by (simp add: g)
  have s3: "sched_step tw (Advance ?n) \<lparr>sw = w1, in_flight = in_flight s @ [Checking]\<rparr> =
              \<lparr>sw = snd (checkThresholds tw w1), in_flight = in_flight s\<rparr>"
    by simp
  have "sched_run tw [Tick b, Advance ?n, Advance ?n] s =
          \<lparr>sw = snd (checkThresholds tw w1), in_flight = in_flight s\<rparr>"
    using s2 s3 by simp
  with g show ?thesis
    by simp
qed

theorem tick_always_starts_cycle_witness:
  "in_flight (sched_step mock_service (Tick sample_batch) (idle_sched\<lparr>in_flight := [Checking]\<rparr>)) =
     [Checking, Generating sample_batch]
   \<and> sched_run mock_service [Tick sample_batch, Advance 1, Advance 1]
         (idle_sched\<lparr>in_flight := [Checking]\<rparr>) =
       idle_sched
         \<lparr>in_flight := [Checking],
          sw := snd (checkThresholds mock_service (snd (generateMockData sample_batch (sw idle_sched))))\<rparr>"
  using tick_always_starts_cycle [of mock_service sample_batch "idle_sched\<lparr>in_flight := [Checking]\<rparr>"]
  by simp

theorem overlapping_tick_runs:
  "length (in_flight (sched_run mock_service [Tick sample_batch, Advance 0, Tick sample_batch]
                        idle_sched)) = 2
   \<and> map event_target
       (trace (sw (sched_run mock_service
          [Tick sample_batch, Advance 0, Tick sample_batch, Advance 1, Advance 0, Advance 0]
          idle_sched))) = [(''sms'', ''+914''), (''sms'', ''+914'')]
   \<and> map_option (map a_parameter \<circ> alerts_of)
       (store_emission (sw (sched_run mock_service
          [Tick sample_batch, Advance 0, Tick sample_batch, Advance 1, Advance 0, Advance 0]
          idle_sched))) = Some [''sox'', ''sox'']"
  by (simp add: idle_sched_def sample_batch_def sample_maintenance_def sample_load_def
        sample_ash_def cycle_defs run_defs sample_defs)

text \<open>
  C6. \<^verbatim>\<open>POST /send-sms\<close> for one active user opted into SMS whose phone number is
  the empty string: \<^verbatim>\<open>sendAlert\<close> skips the user, no send is made and the results
  are empty, yet the summary reports one attempt, with no success and no failure.
  (\<open>send_route_summary\<close> and \<open>broadcast_route_summary\<close> above give the counts in
  general: successes and failures always add up to the results, which is what
  \<^verbatim>\<open>/broadcast\<close> reports as attempted.)
\<close>

theorem send_sms_summary_miscount:
  "send_sms_route mock_service (Some [''u5'']) (Some ''hello'') False world_empty_phone =
     (Inr (Sent [] \<lparr>attempted = 1, successful = 0, failed = 0\<rparr>),
      world_empty_phone\<lparr>db_ops := 1\<rparr>)"
  by (simp add: send_sms_route_def send_route_def findUsersByIds_def run_defs sample_defs)

text \<open>
  C7. The deliveries of a breach do not depend on its severity: for a
  \<^verbatim>\<open>Medium\<close> (Warning) and for a \<^verbatim>\<open>High\<close> (Critical) breach alike, the loop sends
  one SMS to every user opted into SMS and then one WhatsApp message to every user
  opted into WhatsApp (of the users that have a phone number). The channels of a
  Critical breach are thus those of a Warning, for every recipient, and they are
  all the channels the recipient has opted into; there is no default channel. The
  theorem \<open>warning_uses_every_channel\<close> is a \<^verbatim>\<open>Medium\<close> breach delivered to
  one user over both channels.
\<close>

theorem dispatch_ignores_severity:
  assumes "e_params e1 p = Some d1" "r_value d1 = Some v1" "r_threshold d1 = Some t1"
    and "t1 < v1" "v1 \<le> t1 * 1.2"
    and "e_params e2 p = Some d2" "r_value d2 = Some v2" "r_threshold d2 = Some t2"
    and "t2 < v2" "v2 > t2 * 1.2"
  shows "a_severity (emission_alert_of p d1 v1 t1) = ''Medium''
     \<and> a_severity (emission_alert_of p d2 v2 t2) = ''High''
     \<and> map event_target
         (drop (length (trace w)) (trace (snd (checkEmission_loop tw users [p] e1 w)))) =
         map (\<lambda>u. (''sms'', js_str (phone u)))
           (filter (\<lambda>u. sms (notifications u) \<and> truthy (phone u)) users)
         @ map (\<lambda>u. (''whatsapp'', js_str (phone u)))
             (filter (\<lambda>u. whatsapp (notifications u) \<and> truthy (phone u)) users)
     \<and> map event_target
         (drop (length (trace w)) (trace (snd (checkEmission_loop tw users [p] e2 w)))) =
         map event_target
           (drop (length (trace w)) (trace (snd (checkEmission_loop tw users [p] e1 w))))"
proof -
  have gt1: "v1 > t1" and gt2: "v2 > t2"
    using assms by simp_all
  have tr: "map event_target (drop (length (trace w))
              (trace (snd (checkEmission_loop tw users [p] e w)))) =
            map (\<lambda>u. (''sms'', js_str (phone u)))
              (filter (\<lambda>u. sms (notifications u) \<and> truthy (phone u)) users)
            @ map (\<lambda>u. (''whatsapp'', js_str (phone u)))
                (filter (\<lambda>u. whatsapp (notifications u) \<and> truthy (phone u)) users)"
    if "e_params e p = Some d" "r_value d = Some v" "r_threshold d = Some t" "v > t"
    for e d v t
    by (simp add: loop_single_breach [OF that] event_target_dispatch)
  from assms show ?thesis
    by (simp add: tr [OF assms(1-3) gt1] tr [OF assms(6-8) gt2] emission_alert_of_def)
qed

theorem dispatch_ignores_severity_witness:
  "map event_target
     (trace (snd (checkEmission_loop mock_service [user_both, user_whatsapp_only] [''sox'']
                    (sample_emission 210 200) empty_world))) =
     [(''sms'', ''+911''), (''whatsapp'', ''+911''), (''whatsapp'', ''+913'')]
   \<and> map event_target
     (trace (snd (checkEmission_loop mock_service [user_both, user_whatsapp_only] [''sox'']
                    (sample_emission 260 200) empty_world))) =
     [(''sms'', ''+911''), (''whatsapp'', ''+911''), (''whatsapp'', ''+913'')]"
  using dispatch_ignores_severity [of "sample_emission 210 200" "''sox''"
      "sample_reading 210 200" 210 200 "sample_emission 260 200" "sample_reading 260 200"
      260 200 empty_world mock_service "[user_both, user_whatsapp_only]"]
  by (simp add: sample_defs)

theorem warning_uses_every_channel:
  "map (\<lambda>a. (a_parameter a, a_severity a))
     (alerts_of (projr (fst (checkEmissionThresholds mock_service (sample_emission 210 200)
                               [user_both] empty_world)))) = [(''sox'', ''Medium'')]
   \<and> map event_target
       (trace (snd (checkEmissionThresholds mock_service (sample_emission 210 200) [user_both]
                      empty_world))) = [(''sms'', ''+911''), (''whatsapp'', ''+911'')]"
  by (simp add: run_defs sample_defs)

text \<open>
  C8. A maintenance snapshot with temperature 600 against a maximum of
  550, and no other parameter in breach, gives exactly one critical issue, the
  temperature. Every message sent for it states the risk level \<^verbatim>\<open>High\<close>, one
  message per user and channel opted into, and the snapshot gains the anomaly
  \<^verbatim>\<open>Temperature\<close> when its save succeeds. The maintenance check applies no factor
  of 1.2 and has no lower grade. The theorem \<open>equipment_breach_reported_high\<close>
  shows the message at risk level \<^verbatim>\<open>High\<close> although 600 does not exceed 660.
\<close>

theorem equipment_breach_is_high:
  assumes "temperature (parameters m) = Some 600"
    and "b_max (t_temperature (thresholds m)) = Some 550"
    and "exceeds_issue ''Vibration'' ''mm/s'' (vibration (parameters m))
           (b_max (t_vibration (thresholds m))) = []"
    and "exceeds_issue ''Pressure'' ''bar'' (pressure (parameters m))
           (b_max (t_pressure (thresholds m))) = []"
    and "below_issue ''Efficiency'' ''%'' (efficiency (parameters m))
           (b_min (t_efficiency (thresholds m))) = []"
  shows "criticalIssues_of m = [Exceeds ''Temperature'' 600 550 ''C'']
     \<and> list_all
         (\<lambda>ev. event_message ev =
                Str (MaintenanceMsg (equipment_name m) ''High''
                       [Exceeds ''Temperature'' 600 550 ''C'']))
         (drop (length (trace w)) (trace (snd (checkMaintenanceThresholds tw m users w))))
     \<and> length (drop (length (trace w)) (trace (snd (checkMaintenanceThresholds tw m users w)))) =
         length (filter (\<lambda>u. sms (notifications u) \<and> truthy (phone u)) users)
         + length (filter (\<lambda>u. whatsapp (notifications u) \<and> truthy (phone u)) users)
     \<and> (\<not> db_fault w (db_ops w) \<longrightarrow>
          map_sum id anomalies (fst (checkMaintenanceThresholds tw m users w)) =
            Inr (Some ((case anomalies m of None \<Rightarrow> [] | Some xs \<Rightarrow> xs) @ [''Temperature''])))"
proof -
  have issues: "criticalIssues_of m = [Exceeds ''Temperature'' 600 550 ''C'']"
    using assms by (simp add: criticalIssues_of_def)
  show ?thesis
    by (simp add: issues maintenance_run event_message_dispatch length_dispatch)
qed

theorem equipment_breach_is_high_witness:
  "criticalIssues_of (sample_maintenance 600) = [Exceeds ''Temperature'' 600 550 ''C'']
   \<and> map event_message
       (trace (snd (checkMaintenanceThresholds mock_service (sample_maintenance 600)
                      [user_both] empty_world))) =
     [Str (MaintenanceMsg ''Boiler-1'' ''High'' [Exceeds ''Temperature'' 600 550 ''C'']),
      Str (MaintenanceMsg ''Boiler-1'' ''High'' [Exceeds ''Temperature'' 600 550 ''C''])]
   \<and> map_sum id anomalies
       (fst (checkMaintenanceThresholds mock_service (sample_maintenance 600) [user_both]
               empty_world)) = Inr (Some [''Temperature''])"
proof -
  have h: "temperature (parameters (sample_maintenance 600)) = Some 600"
    "b_max (t_temperature (thresholds (sample_maintenance 600))) = Some 550"
    "exceeds_issue ''Vibration'' ''mm/s'' (vibration (parameters (sample_maintenance 600)))
           (b_max (t_vibration (thresholds (sample_maintenance 600)))) = []"
    "exceeds_issue ''Pressure'' ''bar'' (pressure (parameters (sample_maintenance 600)))
           (b_max (t_pressure (thresholds (sample_maintenance 600)))) = []"
    "below_issue ''Efficiency'' ''%'' (efficiency (parameters (sample_maintenance 600)))
           (b_min (t_efficiency (thresholds (sample_maintenance 600)))) = []"
    by (simp_all add: sample_maintenance_def)
  have tr: "length (trace (snd (checkMaintenanceThresholds mock_service (sample_maintenance 600)
                      [user_both] empty_world))) = 2"
    by (simp add: maintenance_run criticalIssues_of_def sample_maintenance_def
          dispatch_events_def sample_defs)
  from equipment_breach_is_high [OF h, of empty_world mock_service "[user_both]"] tr
  show ?thesis
    by (auto simp: empty_world_def sample_maintenance_def list_all_iff length_Suc_conv
          numeral_2_eq_2)
qed

theorem equipment_breach_reported_high:
  "\<not> (600 :: real) > 550 * 1.2
   \<and> trace (snd (checkMaintenanceThresholds mock_service (sample_maintenance 600)
                   [user_sms_only] empty_world)) =
     [Send ''sms'' ''+914''
        (MaintenanceMsg ''Boiler-1'' ''High'' [Exceeds ''Temperature'' 600 550 ''C'']) Mocked]"
  by (simp add: maintenance_run criticalIssues_of_def dispatch_events_def sent_event_def
        chan_def sample_maintenance_def sample_defs)





text \<open>
  C10. \<^verbatim>\<open>sendAlert\<close> never throws; its results are, in order, those of the users
  that are not skipped, and it makes one send per such user and no other. A user
  without a phone number, or not opted into the requested channel, is skipped, so
  a list that holds such a user gives strictly fewer results than users.
\<close>

theorem sendAlert_skips:
  "\<exists>rs w'. sendAlert tw users m ty w = (Inr rs, w')
     \<and> map res_userId rs = map user_id (filter (\<lambda>u. \<not> skipped u ty) users)
     \<and> map event_target (drop (length (trace w)) (trace w')) =
         map (\<lambda>u. (if ty = ''whatsapp'' then ''whatsapp'' else ''sms'', js_str (phone u)))
           (filter (\<lambda>u. \<not> skipped u ty) users)
     \<and> take (length (trace w)) (trace w') = trace w
     \<and> ((\<exists>u \<in> set users. \<not> truthy (phone u) \<or> (\<not> sms (notifications u) \<and> ty = ''sms'')
            \<or> (\<not> whatsapp (notifications u) \<and> ty = ''whatsapp'')) \<longrightarrow>
          length rs < length users)"
proof -
  let ?keep = "filter (\<lambda>u. \<not> skipped u ty) users"
  obtain rs where run:
    "sendAlert tw users m ty w =
       (Inr rs, w\<lparr>trace := trace w @ map (\<lambda>u. sent_event tw ty (js_str (phone u)) m) ?keep\<rparr>)"
    and ids: "map res_userId rs = map user_id ?keep"
    using sendAlert_effect [of tw users m ty w] by blast
  have len: "length rs = length ?keep"
    using ids by (metis length_map)
  have short: "length rs < length users"
    if "\<exists>u \<in> set users. \<not> truthy (phone u) \<or> (\<not> sms (notifications u) \<and> ty = ''sms'')
            \<or> (\<not> whatsapp (notifications u) \<and> ty = ''whatsapp'')"
  proof -
    from that obtain u where "u \<in> set users" "skipped u ty"
      by (auto simp: skipped_def)
    then have "length ?keep < length users"
      by (intro length_filter_less [of u]) simp_all
    with len show ?thesis by simp
  qed
  show ?thesis
    using run ids short by (simp add: chan_def comp_def)
qed

theorem sendAlert_skips_witness:
  "\<exists>rs w'. sendAlert mock_service [user_no_phone, user_whatsapp_only, user_both]
              (Plain ''test'') ''sms'' empty_world = (Inr rs, w')
     \<and> map res_userId rs = [''u1'']
     \<and> map event_target (trace w') = [(''sms'', ''+911'')]
     \<and> length rs < length [user_no_phone, user_whatsapp_only, user_both]"
  using sendAlert_skips [of mock_service "[user_no_phone, user_whatsapp_only, user_both]"
      "Plain ''test''" "''sms''" empty_world]
  by (simp add: skipped_def user_no_phone_def user_whatsapp_only_def user_both_def
        empty_world_def)


end
